theory Spec2Isabelle
  imports Main
begin

section \<open>EC2 stop-and-notify Lambda (src/lambda.py)\<close>

text \<open>
  The module has one pure predicate, \<open>should_exclude\<close>, and one handler,
  \<open>lambda_handler\<close>, that calls three remote operations: \<open>ec2.describe_instances\<close>,
  \<open>ec2.stop_instances\<close> and \<open>sns.publish\<close>. The remote services are a parameter of the
  model (a record saying what each call answers), the handler returns its result together
  with the sequence of remote calls and log lines it made, and an exception is a value.

  A Python \<open>str\<close> is a \<open>string\<close>; a \<open>char\<close> stands for a code point below 256.
  A dictionary entry that the code reads with \<open>d.get(k)\<close> and only compares, or reads
  with \<open>d.get(k, []) or []\<close>, is an \<open>option\<close>: \<open>None\<close> when the key is absent or
  holds Python's \<open>None\<close>, which the code cannot tell apart (\<open>InstanceId\<close>, \<open>Tags\<close>,
  \<open>Key\<close>, \<open>Value\<close>). An entry that the code reads with \<open>d.get(k, [])\<close> and iterates
  is a \<open>field\<close>, which keeps the two apart (\<open>Reservations\<close>, \<open>Instances\<close>): the default
  stands in for an absent key only, and iterating \<open>None\<close> raises \<open>TypeError\<close>.
\<close>

subsection \<open>Python strings: strip, split, repr\<close>

definition isspace :: "char \<Rightarrow> bool" where
  \<comment> \<open>\<open>str.isspace\<close> on the code points below 256\<close>
  "isspace c =
     (let n = (of_char c :: nat)
      in (9 \<le> n \<and> n \<le> 13) \<or> (28 \<le> n \<and> n \<le> 32) \<or> n = 133 \<or> n = 160)"

definition strip :: "string \<Rightarrow> string" where
  "strip s = rev (dropWhile isspace (rev (dropWhile isspace s)))"

fun split_from :: "char \<Rightarrow> string \<Rightarrow> string \<Rightarrow> string list" where
  "split_from sep cur [] = [rev cur]"
| "split_from sep cur (c # cs) =
     (if c = sep then rev cur # split_from sep [] cs else split_from sep (c # cur) cs)"

definition split :: "char \<Rightarrow> string \<Rightarrow> string list" where
  \<comment> \<open>\<open>s.split(sep)\<close> with a one-character separator\<close>
  "split sep s = split_from sep [] s"

definition hex_digit :: "nat \<Rightarrow> char" where
  "hex_digit n = ''0123456789abcdef'' ! (n mod 16)"

definition repr_char :: "char \<Rightarrow> char \<Rightarrow> string" where
  \<comment> \<open>one character inside \<open>repr\<close> of a \<open>str\<close> delimited by the quote \<open>q\<close>\<close>
  "repr_char q c =
     (let n = (of_char c :: nat)
      in if c = q \<or> n = 92 then [CHR 0x5C, c]
         else if n = 9 then [CHR 0x5C, CHR ''t'']
         else if n = 10 then [CHR 0x5C, CHR ''n'']
         else if n = 13 then [CHR 0x5C, CHR ''r'']
         else if n < 32 \<or> n = 127 \<or> (128 \<le> n \<and> n \<le> 160) \<or> n = 173
           then [CHR 0x5C, CHR ''x'', hex_digit (n div 16), hex_digit n]
         else [c])"

definition repr_str :: "string \<Rightarrow> string" where
  \<comment> \<open>\<open>repr(s)\<close>: double quotes only when \<open>s\<close> has a single quote and no double quote\<close>
  "repr_str s =
     (let q = (if CHR 0x27 \<in> set s \<and> CHR 0x22 \<notin> set s then CHR 0x22 else CHR 0x27)
      in [q] @ concat (map (repr_char q) s) @ [q])"

fun repr_id :: "string option \<Rightarrow> string" where
  "repr_id None = ''None''"
| "repr_id (Some s) = repr_str s"

fun str_id :: "string option \<Rightarrow> string" where
  \<comment> \<open>\<open>f"{instance_id}"\<close>\<close>
  "str_id None = ''None''"
| "str_id (Some s) = s"

fun join :: "string \<Rightarrow> string list \<Rightarrow> string" where
  "join sep [] = []"
| "join sep [x] = x"
| "join sep (x # y # zs) = x @ sep @ join sep (y # zs)"

definition str_list :: "string option list \<Rightarrow> string" where
  \<comment> \<open>\<open>f"{instances_to_stop}"\<close>: the \<open>str\<close> of a list is the \<open>repr\<close> of its elements\<close>
  "str_list ids = ''['' @ join '', '' (map repr_id ids) @ '']''"

subsection \<open>Data\<close>

record tag =
  Key :: "string option"
  Value :: "string option"

record instance_record =
  InstanceId :: "string option"
  Tags :: "tag list option"

datatype 'a field = Absent | Null | Holds 'a

record reservation =
  Instances :: "instance_record list field"

record response =
  Reservations :: "reservation list field"

text \<open>The process environment, as far as the module reads it.\<close>

record environ =
  env_SNS_TOPIC_ARN :: "string option"
  env_EXCLUDE_TAG_KEY :: "string option"
  env_EXCLUDE_TAG_VALUES :: "string option"

text \<open>The module-level constants computed from it at import.\<close>

record config =
  SNS_TOPIC_ARN :: "string option"
  EXCLUDE_TAG_KEY :: string
  EXCLUDE_TAG_VALUES :: "string list"

definition environ_get :: "string option \<Rightarrow> string \<Rightarrow> string" where
  \<comment> \<open>\<open>os.environ.get(name, default)\<close>\<close>
  "environ_get v dflt = (case v of None \<Rightarrow> dflt | Some s \<Rightarrow> s)"

definition load_config :: "environ \<Rightarrow> config" where
  "load_config env =
     \<lparr>SNS_TOPIC_ARN = env_SNS_TOPIC_ARN env,
      EXCLUDE_TAG_KEY = environ_get (env_EXCLUDE_TAG_KEY env) ''Environment'',
      EXCLUDE_TAG_VALUES =
        map strip (filter (\<lambda>v. strip v \<noteq> [])
          (split (CHR '','') (environ_get (env_EXCLUDE_TAG_VALUES env) '''')))\<rparr>"

definition notify_target :: "config \<Rightarrow> string option" where
  \<comment> \<open>\<open>if SNS_TOPIC_ARN:\<close> is false for \<open>None\<close> and for the empty string\<close>
  "notify_target cfg =
     (case SNS_TOPIC_ARN cfg of None \<Rightarrow> None | Some topic \<Rightarrow> if topic = [] then None else Some topic)"

subsection \<open>Exceptions, remote services, trace\<close>

text \<open>
  Exceptions are the subclasses of \<open>Exception\<close>, split the way the handler tells them
  apart: botocore's \<open>ClientError\<close> and every other class. The string is \<open>str(e)\<close>.
\<close>

datatype exn = ClientError string | OtherException string

fun str_exn :: "exn \<Rightarrow> string" where
  "str_exn (ClientError s) = s"
| "str_exn (OtherException s) = s"

fun is_ClientError :: "exn \<Rightarrow> bool" where
  "is_ClientError (ClientError s) = True"
| "is_ClientError (OtherException s) = False"

text \<open>
  What the remote services answer in one run. A call either raises (\<open>Inl e\<close>, \<open>Some e\<close>)
  or returns. \<open>publish\<close> takes the topic, the subject and the message.
\<close>

definition not_iterable :: exn where
  \<comment> \<open>the \<open>TypeError\<close> of \<open>for x in None\<close>\<close>
  "not_iterable = OtherException (CHR 0x27 # ''NoneType'' @ CHR 0x27 # '' object is not iterable'')"

definition iter_get :: "'a list field \<Rightarrow> exn + 'a list" where
  \<comment> \<open>what \<open>for x in d.get(k, [])\<close> iterates over\<close>
  "iter_get f = (case f of Absent \<Rightarrow> Inr [] | Null \<Rightarrow> Inl not_iterable | Holds xs \<Rightarrow> Inr xs)"

record world =
  describe_instances :: "exn + response"
  stop_instances :: "string option list \<Rightarrow> exn option"
  publish :: "string \<Rightarrow> string \<Rightarrow> string \<Rightarrow> exn option"

datatype event =
    CallDescribe
  | CallStop "string option list"
  | CallPublish string string string
  | LogInfo string
  | LogError string
  | LogException string

record outcome =
  status :: string
  message :: string

subsection \<open>should_exclude\<close>

definition tags_of :: "instance_record \<Rightarrow> tag list" where
  \<comment> \<open>\<open>instance.get('Tags', []) or []\<close>\<close>
  "tags_of inst = (case Tags inst of None \<Rightarrow> [] | Some ts \<Rightarrow> ts)"

definition tag_matches :: "config \<Rightarrow> tag \<Rightarrow> bool" where
  \<comment> \<open>\<open>t.get('Key') == EXCLUDE_TAG_KEY and t.get('Value') in EXCLUDE_TAG_VALUES\<close>\<close>
  "tag_matches cfg t =
     (Key t = Some (EXCLUDE_TAG_KEY cfg) \<and>
      (case Value t of None \<Rightarrow> False | Some v \<Rightarrow> v \<in> set (EXCLUDE_TAG_VALUES cfg)))"

fun tags_loop :: "config \<Rightarrow> tag list \<Rightarrow> bool" where
  "tags_loop cfg [] = False"
| "tags_loop cfg (t # ts) = (if tag_matches cfg t then True else tags_loop cfg ts)"

definition should_exclude :: "config \<Rightarrow> instance_record \<Rightarrow> bool" where
  "should_exclude cfg inst = tags_loop cfg (tags_of inst)"

subsection \<open>lambda_handler\<close>

type_synonym acc = "string option list \<times> event list"

fun instances_loop :: "config \<Rightarrow> instance_record list \<Rightarrow> acc \<Rightarrow> acc" where
  "instances_loop cfg [] st = st"
| "instances_loop cfg (inst # insts) (to_stop, tr) =
     (let instance_id = InstanceId inst
      in if should_exclude cfg inst
         then instances_loop cfg insts
                (to_stop, tr @ [LogInfo (''Skipping '' @ str_id instance_id @ '' due to tag exclusion'')])
         else instances_loop cfg insts (to_stop @ [instance_id], tr))"

fun reservations_loop ::
  "config \<Rightarrow> reservation list \<Rightarrow> acc \<Rightarrow> (exn + string option list) \<times> event list" where
  "reservations_loop cfg [] (to_stop, tr) = (Inr to_stop, tr)"
| "reservations_loop cfg (r # rs) (to_stop, tr) =
     (case iter_get (Instances r) of
        Inl e \<Rightarrow> (Inl e, tr)
      | Inr insts \<Rightarrow> reservations_loop cfg rs (instances_loop cfg insts (to_stop, tr)))"

definition ok :: "string \<Rightarrow> outcome" where
  "ok msg = \<lparr>status = ''ok'', message = msg\<rparr>"

definition notify :: "config \<Rightarrow> world \<Rightarrow> string \<Rightarrow> event list \<Rightarrow> (exn + outcome) \<times> event list" where
  \<comment> \<open>the success path from \<open>if SNS_TOPIC_ARN:\<close> to \<open>return\<close>; only \<open>ClientError\<close> is caught\<close>
  "notify cfg w msg tr =
     (case notify_target cfg of
        None \<Rightarrow> (Inr (ok msg), tr)
      | Some topic \<Rightarrow>
          (let tr' = tr @ [CallPublish topic ''EC2 Stop Notification'' msg]
           in case publish w topic ''EC2 Stop Notification'' msg of
                None \<Rightarrow> (Inr (ok msg), tr')
              | Some e \<Rightarrow>
                  if is_ClientError e
                  then (Inr (ok msg),
                        tr' @ [LogError (''Failed to publish SNS message: '' @ str_exn e)])
                  else (Inl e, tr')))"

definition try_body :: "config \<Rightarrow> world \<Rightarrow> (exn + outcome) \<times> event list" where
  \<comment> \<open>the body of the outer \<open>try\<close>\<close>
  "try_body cfg w =
     (case describe_instances w of
        Inl e \<Rightarrow> (Inl e, [CallDescribe])
      | Inr resp \<Rightarrow>
          (case iter_get (Reservations resp) of
             Inl e \<Rightarrow> (Inl e, [CallDescribe])
           | Inr rs \<Rightarrow>
               (case reservations_loop cfg rs ([], [CallDescribe]) of
                  (Inl e, tr) \<Rightarrow> (Inl e, tr)
                | (Inr instances_to_stop, tr) \<Rightarrow>
                    if instances_to_stop \<noteq> [] then
                      (let tr' = tr @ [LogInfo (''Stopping instances: '' @ str_list instances_to_stop),
                                       CallStop instances_to_stop]
                       in case stop_instances w instances_to_stop of
                            Some e \<Rightarrow> (Inl e, tr')
                          | None \<Rightarrow>
                              notify cfg w
                                (''Stopped EC2 instances: '' @ str_list instances_to_stop) tr')
                    else
                      notify cfg w ''No eligible instances to stop.''
                        (tr @ [LogInfo ''No eligible instances to stop.'']))))"

definition notify_error :: "config \<Rightarrow> world \<Rightarrow> exn \<Rightarrow> event list \<Rightarrow> event list" where
  \<comment> \<open>the handler's \<open>if SNS_TOPIC_ARN:\<close>; \<open>except Exception: pass\<close> drops what publish raises\<close>
  "notify_error cfg w e tr =
     (case notify_target cfg of
        None \<Rightarrow> tr
      | Some topic \<Rightarrow>
          (let tr' = tr @ [CallPublish topic ''EC2 Stop Lambda Error'' (str_exn e)]
           in case publish w topic ''EC2 Stop Lambda Error'' (str_exn e) of
                None \<Rightarrow> tr'
              | Some e' \<Rightarrow> tr'))"

definition lambda_handler :: "config \<Rightarrow> world \<Rightarrow> (exn + outcome) \<times> event list" where
  \<comment> \<open>\<open>Inl e\<close>: the handler raises \<open>e\<close>; \<open>Inr out\<close>: it returns \<open>out\<close>\<close>
  "lambda_handler cfg w =
     (case try_body cfg w of
        (Inr out, tr) \<Rightarrow> (Inr out, tr)
      | (Inl e, tr) \<Rightarrow>
          (Inl e, notify_error cfg w e (tr @ [LogException ''Lambda execution failed''])))"

subsection \<open>Observations on a run\<close>

text \<open>
  What the claims observe of a run: the identifier lists passed to \<open>stop_instances\<close> and
  the (topic, subject, message) triples passed to \<open>publish\<close>, in call order.
\<close>

fun stop_calls :: "event list \<Rightarrow> string option list list" where
  "stop_calls [] = []"
| "stop_calls (CallStop ids # es) = ids # stop_calls es"
| "stop_calls (e # es) = stop_calls es"

fun publish_calls :: "event list \<Rightarrow> (string \<times> string \<times> string) list" where
  "publish_calls [] = []"
| "publish_calls (CallPublish topic subject body # es) = (topic, subject, body) # publish_calls es"
| "publish_calls (e # es) = publish_calls es"

text \<open>
  The instances a response holds, read off the response itself and not through the
  handler: the groups of the reservations one after the other, a reservation without the
  \<open>Instances\<close> key adding none. A response with a \<open>None\<close> where a list is iterated holds
  no instance set.
\<close>

fun flatten :: "reservation list \<Rightarrow> instance_record list option" where
  "flatten [] = Some []"
| "flatten (r # rs) =
     (case Instances r of
        Null \<Rightarrow> None
      | Absent \<Rightarrow> flatten rs
      | Holds g \<Rightarrow> (case flatten rs of None \<Rightarrow> None | Some gs \<Rightarrow> Some (g @ gs)))"

definition fetched :: "response \<Rightarrow> instance_record list option" where
  "fetched resp =
     (case Reservations resp of Null \<Rightarrow> None | Absent \<Rightarrow> Some [] | Holds rs \<Rightarrow> flatten rs)"

text \<open>
  The identifiers of the instances that are not excluded, the log line of a skipped
  instance, the summary message, and the exception, if any, that ends the fetch, the scan
  of the response or the stop call.
\<close>

definition eligible_ids :: "config \<Rightarrow> instance_record list \<Rightarrow> string option list" where
  "eligible_ids cfg insts = map InstanceId (filter (\<lambda>i. \<not> should_exclude cfg i) insts)"

definition skip_log :: "instance_record \<Rightarrow> event" where
  "skip_log inst = LogInfo (''Skipping '' @ str_id (InstanceId inst) @ '' due to tag exclusion'')"

definition scan_trace :: "config \<Rightarrow> instance_record list \<Rightarrow> event list" where
  "scan_trace cfg insts = CallDescribe # map skip_log (filter (should_exclude cfg) insts)"

definition summary :: "string option list \<Rightarrow> string" where
  "summary ids =
     (if ids \<noteq> [] then ''Stopped EC2 instances: '' @ str_list ids
      else ''No eligible instances to stop.'')"

definition stop_result :: "config \<Rightarrow> world \<Rightarrow> instance_record list \<Rightarrow> exn option" where
  "stop_result cfg w insts =
     (if eligible_ids cfg insts \<noteq> [] then stop_instances w (eligible_ids cfg insts) else None)"

definition primary_failure :: "config \<Rightarrow> world \<Rightarrow> exn option" where
  "primary_failure cfg w =
     (case describe_instances w of
        Inl e \<Rightarrow> Some e
      | Inr resp \<Rightarrow>
          (case fetched resp of
             None \<Rightarrow> Some not_iterable
           | Some insts \<Rightarrow> stop_result cfg w insts))"

definition publish_result :: "config \<Rightarrow> world \<Rightarrow> string \<Rightarrow> exn option" where
  "publish_result cfg w msg =
     (case notify_target cfg of
        None \<Rightarrow> None
      | Some topic \<Rightarrow> publish w topic ''EC2 Stop Notification'' msg)"

text \<open>
  An identifier that Python's \<open>repr\<close> prints between single quotes as it is: printable
  ASCII without the single quote and the backslash. The identifiers EC2 issues are of
  this kind.
\<close>

definition plain :: "string \<Rightarrow> bool" where
  "plain s =
     list_all (\<lambda>c. 32 \<le> (of_char c :: nat) \<and> (of_char c :: nat) < 127 \<and>
                    c \<noteq> CHR 0x27 \<and> c \<noteq> CHR 0x5C) s"

definition quoted_list :: "string list \<Rightarrow> string" where
  \<comment> \<open>\<open>['a', 'b']\<close>: each identifier between single quotes, comma and space between two\<close>
  "quoted_list ss =
     ''['' @ drop 2 (concat (map (\<lambda>s. '', '' @ CHR 0x27 # s @ [CHR 0x27]) ss)) @ '']''"

subsection \<open>The first-occurrence reading of the specification\<close>

text \<open>
  The specification's wording for duplicate keys, kept apart from the code: look the
  configured key up at its first occurrence in the tag list, as a mapping lookup would,
  and test that one value against the exempt values.
\<close>

definition spec_first_occurrence :: "config \<Rightarrow> tag list \<Rightarrow> bool" where
  "spec_first_occurrence cfg ts =
     (case find (\<lambda>t. Key t = Some (EXCLUDE_TAG_KEY cfg)) ts of
        None \<Rightarrow> False
      | Some t \<Rightarrow> (case Value t of None \<Rightarrow> False | Some v \<Rightarrow> v \<in> set (EXCLUDE_TAG_VALUES cfg)))"

subsection \<open>Concrete runs\<close>

definition scenario_environ :: environ where
  "scenario_environ =
     \<lparr>env_SNS_TOPIC_ARN = None,
      env_EXCLUDE_TAG_KEY = Some ''Environment'',
      env_EXCLUDE_TAG_VALUES = Some ''prod''\<rparr>"

definition scenario_response :: response where
  "scenario_response =
     \<lparr>Reservations = Holds
        [\<lparr>Instances = Holds
            [\<lparr>InstanceId = Some ''i-1'', Tags = Some []\<rparr>,
             \<lparr>InstanceId = Some ''i-2'',
              Tags = Some [\<lparr>Key = Some ''Environment'', Value = Some ''prod''\<rparr>]\<rparr>]\<rparr>]\<rparr>"

definition fleet_response :: response where
  \<comment> \<open>three reservations, the second without the \<open>Instances\<close> key\<close>
  "fleet_response =
     \<lparr>Reservations = Holds
        [\<lparr>Instances = Holds [\<lparr>InstanceId = Some ''i-0a1b'', Tags = None\<rparr>]\<rparr>,
         \<lparr>Instances = Absent\<rparr>,
         \<lparr>Instances = Holds
            [\<lparr>InstanceId = Some ''i-2'',
              Tags = Some [\<lparr>Key = Some ''Environment'', Value = Some ''staging''\<rparr>]\<rparr>,
             \<lparr>InstanceId = Some ''i-0c2d'',
              Tags = Some [\<lparr>Key = Some ''Environment'', Value = Some ''dev''\<rparr>]\<rparr>]\<rparr>]\<rparr>"

definition broken_response :: response where
  \<comment> \<open>the second reservation holds \<open>None\<close> under \<open>Instances\<close>\<close>
  "broken_response =
     \<lparr>Reservations = Holds
        [\<lparr>Instances = Holds [\<lparr>InstanceId = Some ''i-1'', Tags = None\<rparr>]\<rparr>,
         \<lparr>Instances = Null\<rparr>]\<rparr>"

definition topic_environ :: environ where
  "topic_environ =
     \<lparr>env_SNS_TOPIC_ARN = Some ''arn:aws:sns:eu-west-1:111122223333:ec2-stop'',
      env_EXCLUDE_TAG_KEY = None,
      env_EXCLUDE_TAG_VALUES = Some ''prod, staging''\<rparr>"

definition service :: "exn + response \<Rightarrow> exn option \<Rightarrow> exn option \<Rightarrow> world" where
  \<comment> \<open>services that answer every stop call and every publish call the same way\<close>
  "service d s p =
     \<lparr>describe_instances = d, stop_instances = (\<lambda>ids. s), publish = (\<lambda>topic subject body. p)\<rparr>"

definition duplicate_key_instance :: instance_record where
  "duplicate_key_instance =
     \<lparr>InstanceId = Some ''i-3'',
      Tags = Some [\<lparr>Key = Some ''Environment'', Value = Some ''dev''\<rparr>,
                   \<lparr>Key = Some ''Environment'', Value = Some ''prod''\<rparr>]\<rparr>"

subsection \<open>The loops and the handler, in closed form\<close>

lemma stop_calls_append: "stop_calls (xs @ ys) = stop_calls xs @ stop_calls ys"
  by (induction xs rule: stop_calls.induct) simp_all

lemma publish_calls_append: "publish_calls (xs @ ys) = publish_calls xs @ publish_calls ys"
  by (induction xs rule: publish_calls.induct) simp_all

lemma stop_calls_skip_logs: "stop_calls (map skip_log insts) = []"
  by (induction insts) (simp_all add: skip_log_def)

lemma publish_calls_skip_logs: "publish_calls (map skip_log insts) = []"
  by (induction insts) (simp_all add: skip_log_def)

lemma tags_loop_iff: "tags_loop cfg ts \<longleftrightarrow> (\<exists>t \<in> set ts. tag_matches cfg t)"
  by (induction ts) simp_all

lemma instances_loop_eq:
  "instances_loop cfg insts (to_stop, tr) =
     (to_stop @ eligible_ids cfg insts, tr @ map skip_log (filter (should_exclude cfg) insts))"
  by (induction insts arbitrary: to_stop tr) (simp_all add: skip_log_def eligible_ids_def)

lemma eligible_ids_append: "eligible_ids cfg (xs @ ys) = eligible_ids cfg xs @ eligible_ids cfg ys"
  by (simp add: eligible_ids_def)

lemma reservations_loop_flat:
  "flatten rs = Some insts \<Longrightarrow>
   reservations_loop cfg rs (to_stop, tr) =
     (Inr (to_stop @ eligible_ids cfg insts), tr @ map skip_log (filter (should_exclude cfg) insts))"
proof (induction rs arbitrary: to_stop tr insts)
  case Nil
  then show ?case
    by (simp add: eligible_ids_def)
next
  case (Cons r rs)
  show ?case
  proof (cases "Instances r")
    case Absent
    with Cons.prems have "flatten rs = Some insts"
      by simp
    from Cons.IH [OF this] Absent show ?thesis
      by (simp add: iter_get_def eligible_ids_def)
  next
    case Null
    with Cons.prems show ?thesis
      by simp
  next
    case (Holds g)
    with Cons.prems obtain gs where rest: "flatten rs = Some gs" and all: "insts = g @ gs"
      by (auto split: option.splits)
    from Cons.IH [OF rest] Holds all show ?thesis
      by (simp add: iter_get_def instances_loop_eq eligible_ids_append)
  qed
qed

lemma reservations_loop_broken:
  "flatten rs = None \<Longrightarrow>
   \<exists>seen. reservations_loop cfg rs (to_stop, tr) = (Inl not_iterable, tr @ map skip_log seen)"
proof (induction rs arbitrary: to_stop tr)
  case Nil
  then show ?case
    by simp
next
  case (Cons r rs)
  show ?case
  proof (cases "Instances r")
    case Absent
    with Cons.prems have "flatten rs = None"
      by simp
    from Cons.IH [OF this] Absent show ?thesis
      by (simp add: iter_get_def)
  next
    case Null
    then have "reservations_loop cfg (r # rs) (to_stop, tr) = (Inl not_iterable, tr @ map skip_log [])"
      by (simp add: iter_get_def)
    then show ?thesis
      by blast
  next
    case (Holds g)
    with Cons.prems have "flatten rs = None"
      by (simp split: option.splits)
    from Cons.IH [OF this]
    obtain seen where "reservations_loop cfg rs
        (to_stop @ eligible_ids cfg g, tr @ map skip_log (filter (should_exclude cfg) g)) =
        (Inl not_iterable, (tr @ map skip_log (filter (should_exclude cfg) g)) @ map skip_log seen)"
      by blast
    with Holds have "reservations_loop cfg (r # rs) (to_stop, tr) =
        (Inl not_iterable, tr @ map skip_log (filter (should_exclude cfg) g @ seen))"
      by (simp add: iter_get_def instances_loop_eq)
    then show ?thesis
      by blast
  qed
qed

lemma try_body_raise: "describe_instances w = Inl e \<Longrightarrow> try_body cfg w = (Inl e, [CallDescribe])"
  by (simp add: try_body_def)

lemma try_body_broken:
  assumes "describe_instances w = Inr resp" and "fetched resp = None"
  shows "\<exists>seen. try_body cfg w = (Inl not_iterable, CallDescribe # map skip_log seen)"
proof (cases "Reservations resp")
  case Absent
  with assms(2) show ?thesis
    by (simp add: fetched_def)
next
  case Null
  with assms(1) have "try_body cfg w = (Inl not_iterable, CallDescribe # map skip_log [])"
    by (simp add: try_body_def iter_get_def)
  then show ?thesis
    by blast
next
  case (Holds rs)
  with assms(2) have "flatten rs = None"
    by (simp add: fetched_def)
  from reservations_loop_broken [OF this]
  obtain seen where "reservations_loop cfg rs ([], [CallDescribe]) =
      (Inl not_iterable, [CallDescribe] @ map skip_log seen)"
    by blast
  with assms(1) Holds have "try_body cfg w = (Inl not_iterable, CallDescribe # map skip_log seen)"
    by (simp add: try_body_def iter_get_def)
  then show ?thesis
    by blast
qed

lemma scan_flat:
  assumes "fetched resp = Some insts"
  shows "\<exists>rs. iter_get (Reservations resp) = Inr rs \<and>
           reservations_loop cfg rs ([], [CallDescribe]) = (Inr (eligible_ids cfg insts), scan_trace cfg insts)"
proof (cases "Reservations resp")
  case Absent
  with assms show ?thesis
    by (simp add: fetched_def iter_get_def eligible_ids_def scan_trace_def)
next
  case Null
  with assms show ?thesis
    by (simp add: fetched_def)
next
  case (Holds rs)
  with assms have "flatten rs = Some insts"
    by (simp add: fetched_def)
  from reservations_loop_flat [OF this, of cfg "[]" "[CallDescribe]"] Holds show ?thesis
    by (simp add: iter_get_def scan_trace_def)
qed

lemma try_body_stop:
  assumes "describe_instances w = Inr resp" and "fetched resp = Some insts"
    and "eligible_ids cfg insts \<noteq> []"
  shows "try_body cfg w =
     (let ids = eligible_ids cfg insts;
          tr = scan_trace cfg insts @ [LogInfo (''Stopping instances: '' @ str_list ids), CallStop ids]
      in case stop_instances w ids of
           Some e \<Rightarrow> (Inl e, tr)
         | None \<Rightarrow> notify cfg w (summary ids) tr)"
proof -
  from scan_flat [OF assms(2)] obtain rs where "iter_get (Reservations resp) = Inr rs"
    and "reservations_loop cfg rs ([], [CallDescribe]) = (Inr (eligible_ids cfg insts), scan_trace cfg insts)"
    by blast
  with assms(1,3) show ?thesis
    by (simp add: try_body_def summary_def Let_def split: option.splits)
qed

lemma try_body_idle:
  assumes "describe_instances w = Inr resp" and "fetched resp = Some insts"
    and "eligible_ids cfg insts = []"
  shows "try_body cfg w =
     notify cfg w (summary []) (scan_trace cfg insts @ [LogInfo ''No eligible instances to stop.''])"
proof -
  from scan_flat [OF assms(2)] obtain rs where "iter_get (Reservations resp) = Inr rs"
    and "reservations_loop cfg rs ([], [CallDescribe]) = (Inr (eligible_ids cfg insts), scan_trace cfg insts)"
    by blast
  with assms(1,3) show ?thesis
    by (simp add: try_body_def summary_def)
qed

lemma stop_calls_scan: "stop_calls (scan_trace cfg insts) = []"
  by (simp add: scan_trace_def stop_calls_skip_logs)

lemma publish_calls_scan: "publish_calls (scan_trace cfg insts) = []"
  by (simp add: scan_trace_def publish_calls_skip_logs)

lemma notify_eq:
  "notify cfg w msg tr =
     (case notify_target cfg of
        None \<Rightarrow> (Inr (ok msg), tr)
      | Some topic \<Rightarrow>
          (case publish_result cfg w msg of
             None \<Rightarrow> (Inr (ok msg), tr @ [CallPublish topic ''EC2 Stop Notification'' msg])
           | Some e \<Rightarrow>
               if is_ClientError e
               then (Inr (ok msg), tr @ [CallPublish topic ''EC2 Stop Notification'' msg,
                       LogError (''Failed to publish SNS message: '' @ str_exn e)])
               else (Inl e, tr @ [CallPublish topic ''EC2 Stop Notification'' msg])))"
  by (simp add: notify_def publish_result_def Let_def split: option.splits)

lemma notify_error_eq:
  "notify_error cfg w e tr =
     (case notify_target cfg of
        None \<Rightarrow> tr
      | Some topic \<Rightarrow> tr @ [CallPublish topic ''EC2 Stop Lambda Error'' (str_exn e)])"
  by (simp add: notify_error_def Let_def split: option.splits)

lemma primary_failure_fetch:
  "describe_instances w = Inr resp \<Longrightarrow> fetched resp = Some insts \<Longrightarrow>
   primary_failure cfg w = stop_result cfg w insts"
  by (simp add: primary_failure_def)

lemma primary_failure_broken:
  "describe_instances w = Inr resp \<Longrightarrow> fetched resp = None \<Longrightarrow>
   primary_failure cfg w = Some not_iterable"
  by (simp add: primary_failure_def)

lemma handler_fetch_raises:
  assumes "describe_instances w = Inl e"
  shows "lambda_handler cfg w =
           (Inl e, notify_error cfg w e [CallDescribe, LogException ''Lambda execution failed''])"
  using assms by (simp add: lambda_handler_def try_body_raise)

lemma handler_broken:
  assumes "describe_instances w = Inr resp" and "fetched resp = None"
  shows "\<exists>seen. lambda_handler cfg w =
           (Inl not_iterable, notify_error cfg w not_iterable
              (CallDescribe # map skip_log seen @ [LogException ''Lambda execution failed'']))"
proof -
  from try_body_broken [OF assms] obtain seen
    where "try_body cfg w = (Inl not_iterable, CallDescribe # map skip_log seen)"
    by blast
  then have "lambda_handler cfg w =
           (Inl not_iterable, notify_error cfg w not_iterable
              (CallDescribe # map skip_log seen @ [LogException ''Lambda execution failed'']))"
    by (simp add: lambda_handler_def)
  then show ?thesis
    by blast
qed

lemma handler_stop_raises:
  assumes "describe_instances w = Inr resp" and "fetched resp = Some insts"
    and "stop_result cfg w insts = Some e"
  shows "lambda_handler cfg w =
           (Inl e, notify_error cfg w e
              (scan_trace cfg insts @
               [LogInfo (''Stopping instances: '' @ str_list (eligible_ids cfg insts)),
                CallStop (eligible_ids cfg insts), LogException ''Lambda execution failed'']))"
proof -
  from assms(3) have ne: "eligible_ids cfg insts \<noteq> []"
    and st: "stop_instances w (eligible_ids cfg insts) = Some e"
    by (simp_all add: stop_result_def split: if_splits)
  show ?thesis
    by (simp add: lambda_handler_def try_body_stop [OF assms(1,2) ne] st Let_def)
qed

lemma handler_primary_ok:
  assumes "describe_instances w = Inr resp" and "fetched resp = Some insts"
    and "stop_result cfg w insts = None"
  shows "lambda_handler cfg w =
           (let ids = eligible_ids cfg insts;
                tr = scan_trace cfg insts @
                     (if ids \<noteq> [] then [LogInfo (''Stopping instances: '' @ str_list ids), CallStop ids]
                      else [LogInfo ''No eligible instances to stop.''])
            in case notify cfg w (summary ids) tr of
                 (Inr out, tr') \<Rightarrow> (Inr out, tr')
               | (Inl e, tr') \<Rightarrow>
                   (Inl e, notify_error cfg w e (tr' @ [LogException ''Lambda execution failed''])))"
proof (cases "eligible_ids cfg insts = []")
  case True
  then show ?thesis
    by (simp add: lambda_handler_def try_body_idle [OF assms(1,2) True])
next
  case False
  with assms(3) have st: "stop_instances w (eligible_ids cfg insts) = None"
    by (simp add: stop_result_def)
  show ?thesis
    by (simp add: lambda_handler_def try_body_stop [OF assms(1,2) False] st Let_def False)
qed

lemma stop_calls_notify: "stop_calls (snd (notify cfg w msg tr)) = stop_calls tr"
  by (simp add: notify_eq stop_calls_append split: option.splits)

lemma stop_calls_notify_error: "stop_calls (notify_error cfg w e tr) = stop_calls tr"
  by (simp add: notify_error_eq stop_calls_append split: option.splits)

lemma stop_calls_handler:
  "stop_calls (snd (lambda_handler cfg w)) =
     (case describe_instances w of
        Inl e \<Rightarrow> []
      | Inr resp \<Rightarrow>
          (case fetched resp of
             None \<Rightarrow> []
           | Some insts \<Rightarrow> if eligible_ids cfg insts \<noteq> [] then [eligible_ids cfg insts] else []))"
proof (cases "describe_instances w")
  case (Inl e)
  then show ?thesis
    by (simp add: handler_fetch_raises stop_calls_notify_error)
next
  case (Inr resp)
  show ?thesis
  proof (cases "fetched resp")
    case None
    from handler_broken [OF Inr None, of cfg] obtain seen where "lambda_handler cfg w =
           (Inl not_iterable, notify_error cfg w not_iterable
              (CallDescribe # map skip_log seen @ [LogException ''Lambda execution failed'']))"
      by blast
    then show ?thesis
      using Inr None
      by (simp add: stop_calls_notify_error stop_calls_append stop_calls_skip_logs)
  next
    case (Some insts)
    show ?thesis
    proof (cases "stop_result cfg w insts")
      case None
      have "stop_calls (snd (case notify cfg w msg tr of
                (Inr out, tr') \<Rightarrow> (Inr out, tr')
              | (Inl e, tr') \<Rightarrow> (Inl e, notify_error cfg w e (tr' @ [LogException l])))) = stop_calls tr"
        for msg tr l
        using stop_calls_notify [of cfg w msg tr]
        by (cases "notify cfg w msg tr")
           (auto simp: stop_calls_notify_error stop_calls_append split: sum.splits)
      then show ?thesis
        using Inr Some
        by (simp add: handler_primary_ok [OF Inr Some None] Let_def stop_calls_append stop_calls_scan)
    next
      case (Some e)
      then have "eligible_ids cfg insts \<noteq> []"
        by (simp add: stop_result_def split: if_splits)
      then show ?thesis
        using Inr \<open>fetched resp = Some insts\<close>
        by (simp add: handler_stop_raises [OF Inr \<open>fetched resp = Some insts\<close> Some]
            stop_calls_notify_error stop_calls_append stop_calls_scan)
    qed
  qed
qed

lemma result_fetch_raises: "describe_instances w = Inl e \<Longrightarrow> fst (lambda_handler cfg w) = Inl e"
  by (simp add: handler_fetch_raises)

lemma result_broken:
  assumes "describe_instances w = Inr resp" and "fetched resp = None"
  shows "fst (lambda_handler cfg w) = Inl not_iterable"
  using handler_broken [OF assms, of cfg] by auto

lemma result_stop_raises:
  "describe_instances w = Inr resp \<Longrightarrow> fetched resp = Some insts \<Longrightarrow>
   stop_result cfg w insts = Some e \<Longrightarrow> fst (lambda_handler cfg w) = Inl e"
  by (simp add: handler_stop_raises)

lemma result_primary_ok:
  assumes "describe_instances w = Inr resp" and "fetched resp = Some insts"
    and "stop_result cfg w insts = None"
  shows "fst (lambda_handler cfg w) =
           (case publish_result cfg w (summary (eligible_ids cfg insts)) of
              None \<Rightarrow> Inr (ok (summary (eligible_ids cfg insts)))
            | Some e \<Rightarrow>
                if is_ClientError e then Inr (ok (summary (eligible_ids cfg insts))) else Inl e)"
proof (cases "eligible_ids cfg insts = []")
  case True
  then show ?thesis
    by (simp add: handler_primary_ok [OF assms] notify_eq Let_def publish_result_def
        split: option.splits)
next
  case False
  then show ?thesis
    by (simp add: handler_primary_ok [OF assms] notify_eq Let_def publish_result_def
        split: option.splits)
qed

lemma publish_calls_fetch_raises:
  "describe_instances w = Inl e \<Longrightarrow>
   publish_calls (snd (lambda_handler cfg w)) =
     (case notify_target cfg of
        None \<Rightarrow> []
      | Some topic \<Rightarrow> [(topic, ''EC2 Stop Lambda Error'', str_exn e)])"
  by (simp add: handler_fetch_raises notify_error_eq split: option.splits)

lemma publish_calls_broken:
  assumes "describe_instances w = Inr resp" and "fetched resp = None"
  shows "publish_calls (snd (lambda_handler cfg w)) =
     (case notify_target cfg of
        None \<Rightarrow> []
      | Some topic \<Rightarrow> [(topic, ''EC2 Stop Lambda Error'', str_exn not_iterable)])"
  using handler_broken [OF assms, of cfg]
  by (auto simp: notify_error_eq publish_calls_append publish_calls_skip_logs split: option.splits)

lemma publish_calls_stop_raises:
  "describe_instances w = Inr resp \<Longrightarrow> fetched resp = Some insts \<Longrightarrow>
   stop_result cfg w insts = Some e \<Longrightarrow>
   publish_calls (snd (lambda_handler cfg w)) =
     (case notify_target cfg of
        None \<Rightarrow> []
      | Some topic \<Rightarrow> [(topic, ''EC2 Stop Lambda Error'', str_exn e)])"
  by (simp add: handler_stop_raises notify_error_eq publish_calls_append publish_calls_scan
      split: option.splits)

lemma publish_calls_primary_ok:
  assumes "describe_instances w = Inr resp" and "fetched resp = Some insts"
    and "stop_result cfg w insts = None"
  shows "publish_calls (snd (lambda_handler cfg w)) =
           (case notify_target cfg of
              None \<Rightarrow> []
            | Some topic \<Rightarrow>
                (topic, ''EC2 Stop Notification'', summary (eligible_ids cfg insts)) #
                (case publish_result cfg w (summary (eligible_ids cfg insts)) of
                   None \<Rightarrow> []
                 | Some e \<Rightarrow>
                     if is_ClientError e then []
                     else [(topic, ''EC2 Stop Lambda Error'', str_exn e)]))"
  by (simp add: handler_primary_ok [OF assms] notify_eq notify_error_eq Let_def publish_result_def
      publish_calls_append publish_calls_scan split: option.splits)

lemma tag_matches_iff:
  "tag_matches cfg t \<longleftrightarrow>
     Key t = Some (EXCLUDE_TAG_KEY cfg) \<and> (\<exists>v \<in> set (EXCLUDE_TAG_VALUES cfg). Value t = Some v)"
  by (auto simp: tag_matches_def split: option.splits)

lemma should_exclude_any:
  "should_exclude cfg inst \<longleftrightarrow>
     (\<exists>t \<in> set (tags_of inst).
        Key t = Some (EXCLUDE_TAG_KEY cfg) \<and> (\<exists>v \<in> set (EXCLUDE_TAG_VALUES cfg). Value t = Some v))"
  by (simp add: should_exclude_def tags_loop_iff tag_matches_iff)

lemma load_config_unset:
  "env_EXCLUDE_TAG_VALUES env = None \<Longrightarrow> EXCLUDE_TAG_VALUES (load_config env) = []"
  by (simp add: load_config_def environ_get_def split_def strip_def)

lemma scenario_config:
  "load_config scenario_environ =
     \<lparr>SNS_TOPIC_ARN = None, EXCLUDE_TAG_KEY = ''Environment'', EXCLUDE_TAG_VALUES = [''prod'']\<rparr>"
  by code_simp

lemma topic_config:
  "load_config topic_environ =
     \<lparr>SNS_TOPIC_ARN = Some ''arn:aws:sns:eu-west-1:111122223333:ec2-stop'',
      EXCLUDE_TAG_KEY = ''Environment'', EXCLUDE_TAG_VALUES = [''prod'', ''staging'']\<rparr>"
  by code_simp

lemma eligible_ids_empty_iff:
  "eligible_ids cfg insts = [] \<longleftrightarrow> (\<forall>i \<in> set insts. should_exclude cfg i)"
  by (simp add: eligible_ids_def filter_empty_conv)

lemma returned_outcome:
  assumes "fst (lambda_handler cfg w) = Inr out"
  obtains resp insts where "describe_instances w = Inr resp"
    and "fetched resp = Some insts"
    and "stop_result cfg w insts = None"
    and "out = ok (summary (eligible_ids cfg insts))"
    and "\<forall>e. publish_result cfg w (summary (eligible_ids cfg insts)) = Some e \<longrightarrow> is_ClientError e"
proof (cases "describe_instances w")
  case (Inl e)
  with assms show ?thesis
    by (simp add: result_fetch_raises)
next
  case (Inr resp)
  show ?thesis
  proof (cases "fetched resp")
    case None
    with assms Inr show ?thesis
      by (simp add: result_broken)
  next
    case (Some insts)
    show ?thesis
    proof (cases "stop_result cfg w insts")
      case (Some e)
      with assms Inr \<open>fetched resp = Some insts\<close> show ?thesis
        by (simp add: result_stop_raises)
    next
      case None
      from assms have r: "(case publish_result cfg w (summary (eligible_ids cfg insts)) of
                None \<Rightarrow> Inr (ok (summary (eligible_ids cfg insts)))
              | Some e \<Rightarrow>
                  if is_ClientError e then Inr (ok (summary (eligible_ids cfg insts))) else Inl e) = Inr out"
        by (simp add: result_primary_ok [OF Inr Some None])
      then have o: "out = ok (summary (eligible_ids cfg insts))"
        by (auto split: option.splits if_splits)
      from r have p: "\<forall>e. publish_result cfg w (summary (eligible_ids cfg insts)) = Some e \<longrightarrow> is_ClientError e"
        by (auto split: if_splits)
      from Inr Some None o p show ?thesis
        by (rule that)
    qed
  qed
qed

lemma tags_loop_no_key:
  "\<forall>t \<in> set ts. Key t \<noteq> Some (EXCLUDE_TAG_KEY cfg) \<Longrightarrow> \<not> tags_loop cfg ts"
  by (simp add: tags_loop_iff tag_matches_def)

lemma tags_loop_unique_key:
  "length (filter (\<lambda>t. Key t = Some (EXCLUDE_TAG_KEY cfg)) ts) \<le> 1 \<Longrightarrow>
   tags_loop cfg ts = spec_first_occurrence cfg ts"
proof (induction ts)
  case Nil
  show ?case
    by (simp add: spec_first_occurrence_def)
next
  case (Cons t ts)
  show ?case
  proof (cases "Key t = Some (EXCLUDE_TAG_KEY cfg)")
    case True
    with Cons.prems have "filter (\<lambda>t. Key t = Some (EXCLUDE_TAG_KEY cfg)) ts = []"
      by simp
    then have "\<forall>u \<in> set ts. Key u \<noteq> Some (EXCLUDE_TAG_KEY cfg)"
      by (simp add: filter_empty_conv)
    then have "\<not> tags_loop cfg ts"
      by (rule tags_loop_no_key)
    with True show ?thesis
      by (simp add: spec_first_occurrence_def tag_matches_def)
  next
    case False
    with Cons.prems have "length (filter (\<lambda>t. Key t = Some (EXCLUDE_TAG_KEY cfg)) ts) \<le> 1"
      by simp
    then have "tags_loop cfg ts = spec_first_occurrence cfg ts"
      by (rule Cons.IH)
    with False show ?thesis
      by (simp add: spec_first_occurrence_def tag_matches_def)
  qed
qed

lemma flatten_groups: "flatten (map (\<lambda>g. \<lparr>Instances = Holds g\<rparr>) groups) = Some (concat groups)"
  by (induction groups) simp_all

lemma failure_run:
  assumes "primary_failure cfg w = Some e"
  shows "\<exists>pre. lambda_handler cfg w =
           (Inl e, notify_error cfg w e (pre @ [LogException ''Lambda execution failed'']))
         \<and> publish_calls pre = []"
proof (cases "describe_instances w")
  case (Inl e')
  with assms have "e' = e"
    by (simp add: primary_failure_def)
  with Inl have "lambda_handler cfg w =
           (Inl e, notify_error cfg w e ([CallDescribe] @ [LogException ''Lambda execution failed'']))
         \<and> publish_calls [CallDescribe] = []"
    by (simp add: handler_fetch_raises)
  then show ?thesis
    by blast
next
  case (Inr resp)
  show ?thesis
  proof (cases "fetched resp")
    case None
    with assms Inr have e: "e = not_iterable"
      by (simp add: primary_failure_broken)
    from handler_broken [OF Inr None, of cfg] obtain seen where "lambda_handler cfg w =
           (Inl not_iterable, notify_error cfg w not_iterable
              (CallDescribe # map skip_log seen @ [LogException ''Lambda execution failed'']))"
      by blast
    with e have "lambda_handler cfg w =
           (Inl e, notify_error cfg w e
              ((CallDescribe # map skip_log seen) @ [LogException ''Lambda execution failed'']))
         \<and> publish_calls (CallDescribe # map skip_log seen) = []"
      by (simp add: publish_calls_skip_logs)
    then show ?thesis
      by blast
  next
    case (Some insts)
    with assms Inr have st: "stop_result cfg w insts = Some e"
      by (simp add: primary_failure_fetch)
    have "lambda_handler cfg w =
           (Inl e, notify_error cfg w e
              ((scan_trace cfg insts @
                 [LogInfo (''Stopping instances: '' @ str_list (eligible_ids cfg insts)),
                  CallStop (eligible_ids cfg insts)]) @ [LogException ''Lambda execution failed'']))
         \<and> publish_calls (scan_trace cfg insts @
                 [LogInfo (''Stopping instances: '' @ str_list (eligible_ids cfg insts)),
                  CallStop (eligible_ids cfg insts)]) = []"
      by (simp add: handler_stop_raises [OF Inr Some st] publish_calls_append publish_calls_scan)
    then show ?thesis
      by blast
  qed
qed

subsection \<open>The rendering of an identifier list\<close>

lemma repr_char_plain:
  assumes "32 \<le> (of_char c :: nat)" and "(of_char c :: nat) < 127"
    and "c \<noteq> CHR 0x27" and "c \<noteq> CHR 0x5C"
  shows "repr_char (CHR 0x27) c = [c]"
proof -
  from assms(4) have "(of_char c :: nat) \<noteq> of_char (CHR 0x5C)"
    by (simp only: of_char_eq_iff) simp
  then have "(of_char c :: nat) \<noteq> 92"
    by simp
  with assms(1-3) show ?thesis
    by (simp add: repr_char_def Let_def)
qed

lemma repr_chars_plain: "plain s \<Longrightarrow> concat (map (repr_char (CHR 0x27)) s) = s"
  by (induction s) (simp_all add: plain_def repr_char_plain)

lemma plain_no_quote: "plain s \<Longrightarrow> CHR 0x27 \<notin> set s"
  by (auto simp: plain_def list_all_iff)

lemma repr_str_plain: "plain s \<Longrightarrow> repr_str s = CHR 0x27 # s @ [CHR 0x27]"
  by (simp add: repr_str_def Let_def plain_no_quote repr_chars_plain)

lemma join_drop: "join '', '' xs = drop 2 (concat (map (\<lambda>x. '', '' @ x) xs))"
  by (induction "'', ''" xs rule: join.induct) simp_all

lemma str_list_plain:
  assumes "list_all plain ss"
  shows "str_list (map Some ss) = quoted_list ss"
proof -
  from assms have eq: "map (\<lambda>x. '', '' @ x) (map repr_id (map Some ss)) =
      map (\<lambda>s. '', '' @ CHR 0x27 # s @ [CHR 0x27]) ss"
    by (induction ss) (simp_all add: repr_str_plain)
  show ?thesis
    unfolding str_list_def quoted_list_def join_drop eq by (rule refl)
qed

lemma quote_split:
  assumes "a \<notin> set xs" and "a \<notin> set xs'" and "xs @ a # ys = xs' @ a # ys'"
  shows "xs = xs' \<and> ys = ys'"
  using assms
proof (induction xs arbitrary: xs')
  case Nil
  then show ?case
    by (cases xs') auto
next
  case (Cons x xs)
  then show ?case
    by (cases xs') auto
qed

lemma quoted_items_inj:
  assumes "list_all plain ss" and "list_all plain ss'"
    and "concat (map (\<lambda>s. '', '' @ CHR 0x27 # s @ [CHR 0x27]) ss) =
         concat (map (\<lambda>s. '', '' @ CHR 0x27 # s @ [CHR 0x27]) ss')"
  shows "ss = ss'"
  using assms
proof (induction ss arbitrary: ss')
  case Nil
  then show ?case
    by (cases ss') simp_all
next
  case (Cons s ss)
  show ?case
  proof (cases ss')
    case Nil
    with Cons.prems show ?thesis
      by simp
  next
    case (Cons s' rest)
    let ?f = "\<lambda>s. '', '' @ CHR 0x27 # s @ [CHR 0x27]"
    from Cons Cons.prems(3)
    have eq: "s @ CHR 0x27 # concat (map ?f ss) = s' @ CHR 0x27 # concat (map ?f rest)"
      by simp
    from Cons.prems(1) have "CHR 0x27 \<notin> set s"
      by (simp add: plain_no_quote)
    moreover from Cons Cons.prems(2) have "CHR 0x27 \<notin> set s'"
      by (simp add: plain_no_quote)
    ultimately have "s = s' \<and> concat (map ?f ss) = concat (map ?f rest)"
      using eq by (rule quote_split)
    moreover from this Cons.IH [of rest] Cons.prems(1,2) Cons have "ss = rest"
      by simp
    ultimately show ?thesis
      using Cons by simp
  qed
qed

lemma quoted_list_inj:
  assumes "list_all plain ss" and "list_all plain ss'" and "quoted_list ss = quoted_list ss'"
  shows "ss = ss'"
proof -
  let ?f = "\<lambda>s. '', '' @ CHR 0x27 # s @ [CHR 0x27]"
  from assms(3) have d: "drop 2 (concat (map ?f ss)) = drop 2 (concat (map ?f ss'))"
    by (simp add: quoted_list_def)
  have two: "concat (map ?f xs) = take 2 (concat (map ?f xs)) @ drop 2 (concat (map ?f xs))" for xs
    by simp
  have hd: "xs \<noteq> [] \<Longrightarrow> take 2 (concat (map ?f xs)) = '', ''" for xs
    by (cases xs) simp_all
  have nonempty: "xs \<noteq> [] \<Longrightarrow> drop 2 (concat (map ?f xs)) \<noteq> []" for xs
    by (cases xs) simp_all
  show ?thesis
  proof (cases "ss = []")
    case True
    with d nonempty [of ss'] show ?thesis
      by (cases "ss' = []") auto
  next
    case False
    with d nonempty [of ss] have ne: "ss' \<noteq> []"
      by (cases "ss' = []") auto
    from False ne d hd [of ss] hd [of ss'] two [of ss] two [of ss']
    have "concat (map ?f ss) = concat (map ?f ss')"
      by simp
    with assms(1,2) show ?thesis
      by (rule quoted_items_inj)
  qed
qed

section \<open>The exclusion predicate\<close>

text \<open>
  Claim C2. For every instance (every tag list, and an absent one) and every list of
  exempt values, \<open>should_exclude\<close> is true exactly when some tag has the configured key
  and a value among the exempt values. So it is false for every instance when there are no
  exempt values, and there are none when \<open>EXCLUDE_TAG_VALUES\<close> is unset in the
  environment.
\<close>

theorem should_exclude_iff:
  "(should_exclude cfg inst \<longleftrightarrow>
      (\<exists>t \<in> set (tags_of inst).
         Key t = Some (EXCLUDE_TAG_KEY cfg) \<and> (\<exists>v \<in> set (EXCLUDE_TAG_VALUES cfg). Value t = Some v)))
   \<and> (EXCLUDE_TAG_VALUES cfg = [] \<longrightarrow> \<not> should_exclude cfg inst)
   \<and> (env_EXCLUDE_TAG_VALUES env = None \<longrightarrow> EXCLUDE_TAG_VALUES (load_config env) = [])"
proof (intro conjI impI)
  show "should_exclude cfg inst \<longleftrightarrow>
      (\<exists>t \<in> set (tags_of inst).
         Key t = Some (EXCLUDE_TAG_KEY cfg) \<and> (\<exists>v \<in> set (EXCLUDE_TAG_VALUES cfg). Value t = Some v))"
    by (rule should_exclude_any)
next
  assume "EXCLUDE_TAG_VALUES cfg = []"
  then show "\<not> should_exclude cfg inst"
    by (simp add: should_exclude_any)
next
  assume "env_EXCLUDE_TAG_VALUES env = None"
  then show "EXCLUDE_TAG_VALUES (load_config env) = []"
    by (rule load_config_unset)
qed

theorem should_exclude_iff_witness:
  "should_exclude (load_config scenario_environ)
     \<lparr>InstanceId = Some ''i-2'', Tags = Some [\<lparr>Key = Some ''Environment'', Value = Some ''prod''\<rparr>]\<rparr>
   \<and> env_EXCLUDE_TAG_VALUES (scenario_environ\<lparr>env_EXCLUDE_TAG_VALUES := None\<rparr>) = None
   \<and> EXCLUDE_TAG_VALUES (load_config (scenario_environ\<lparr>env_EXCLUDE_TAG_VALUES := None\<rparr>)) = []
   \<and> \<not> should_exclude (load_config (scenario_environ\<lparr>env_EXCLUDE_TAG_VALUES := None\<rparr>))
         \<lparr>InstanceId = Some ''i-2'', Tags = Some [\<lparr>Key = Some ''Environment'', Value = Some ''prod''\<rparr>]\<rparr>"
proof -
  let ?i = "\<lparr>InstanceId = Some ''i-2'', Tags = Some [\<lparr>Key = Some ''Environment'', Value = Some ''prod''\<rparr>]\<rparr>"
  let ?env = "scenario_environ\<lparr>env_EXCLUDE_TAG_VALUES := None\<rparr>"
  have unset: "env_EXCLUDE_TAG_VALUES ?env = None"
    by simp
  have a: "should_exclude (load_config scenario_environ) ?i"
    using should_exclude_iff [of "load_config scenario_environ" ?i scenario_environ]
    by (simp add: scenario_config tags_of_def)
  have b: "EXCLUDE_TAG_VALUES (load_config ?env) = []"
    using should_exclude_iff [of "load_config ?env" ?i ?env] unset by blast
  have c: "\<not> should_exclude (load_config ?env) ?i"
    using should_exclude_iff [of "load_config ?env" ?i ?env] b by blast
  from a unset b c show ?thesis by blast
qed

text \<open>
  Claim C7 reads the decision on a tag list with a repeated key at the first occurrence
  of the configured key. The loop does not stop at the first occurrence of the key: it goes
  on to later tags until one has both the key and an exempt value. With the tags
  \<open>Environment=dev, Environment=prod\<close> and the exempt value \<open>prod\<close> the instance is
  excluded, while the first occurrence of the key carries \<open>dev\<close>.
\<close>

theorem duplicate_key_not_first_occurrence:
  "should_exclude (load_config scenario_environ) duplicate_key_instance
   \<and> \<not> spec_first_occurrence (load_config scenario_environ) (tags_of duplicate_key_instance)"
  by code_simp

text \<open>
  Claim C7, as the code has it. An instance without tags (the key absent, \<open>None\<close>, or
  an empty list) is not excluded. On any tag list, repeated keys included, the instance is
  excluded exactly when some tag with the configured key has an exempt value. When the
  configured key occurs at most once, that is the first-occurrence lookup.
\<close>

theorem should_exclude_any_occurrence:
  "(Tags inst = None \<or> Tags inst = Some [] \<longrightarrow> \<not> should_exclude cfg inst)
   \<and> (should_exclude cfg inst \<longleftrightarrow>
        (\<exists>t \<in> set (tags_of inst).
           Key t = Some (EXCLUDE_TAG_KEY cfg) \<and> (\<exists>v \<in> set (EXCLUDE_TAG_VALUES cfg). Value t = Some v)))
   \<and> (length (filter (\<lambda>t. Key t = Some (EXCLUDE_TAG_KEY cfg)) (tags_of inst)) \<le> 1 \<longrightarrow>
        should_exclude cfg inst = spec_first_occurrence cfg (tags_of inst))"
proof (intro conjI impI)
  assume "Tags inst = None \<or> Tags inst = Some []"
  then have "tags_of inst = []"
    by (auto simp: tags_of_def)
  then show "\<not> should_exclude cfg inst"
    by (simp add: should_exclude_def)
next
  show "should_exclude cfg inst \<longleftrightarrow>
        (\<exists>t \<in> set (tags_of inst).
           Key t = Some (EXCLUDE_TAG_KEY cfg) \<and> (\<exists>v \<in> set (EXCLUDE_TAG_VALUES cfg). Value t = Some v))"
    by (rule should_exclude_any)
next
  assume "length (filter (\<lambda>t. Key t = Some (EXCLUDE_TAG_KEY cfg)) (tags_of inst)) \<le> 1"
  then show "should_exclude cfg inst = spec_first_occurrence cfg (tags_of inst)"
    unfolding should_exclude_def by (rule tags_loop_unique_key)
qed

theorem should_exclude_any_occurrence_witness:
  "Tags \<lparr>InstanceId = Some ''i-1'', Tags = None\<rparr> = None
   \<and> \<not> should_exclude (load_config scenario_environ) \<lparr>InstanceId = Some ''i-1'', Tags = None\<rparr>
   \<and> length (filter (\<lambda>t. Key t = Some (EXCLUDE_TAG_KEY (load_config scenario_environ)))
        (tags_of \<lparr>InstanceId = Some ''i-2'',
                  Tags = Some [\<lparr>Key = Some ''Name'', Value = Some ''prod''\<rparr>,
                               \<lparr>Key = Some ''Environment'', Value = Some ''prod''\<rparr>]\<rparr>)) \<le> 1
   \<and> should_exclude (load_config scenario_environ)
        \<lparr>InstanceId = Some ''i-2'',
         Tags = Some [\<lparr>Key = Some ''Name'', Value = Some ''prod''\<rparr>,
                      \<lparr>Key = Some ''Environment'', Value = Some ''prod''\<rparr>]\<rparr>
   \<and> spec_first_occurrence (load_config scenario_environ)
        (tags_of \<lparr>InstanceId = Some ''i-2'',
                  Tags = Some [\<lparr>Key = Some ''Name'', Value = Some ''prod''\<rparr>,
                               \<lparr>Key = Some ''Environment'', Value = Some ''prod''\<rparr>]\<rparr>)"
proof -
  let ?a = "\<lparr>InstanceId = Some ''i-1'', Tags = None\<rparr>"
  let ?b = "\<lparr>InstanceId = Some ''i-2'',
         Tags = Some [\<lparr>Key = Some ''Name'', Value = Some ''prod''\<rparr>,
                      \<lparr>Key = Some ''Environment'', Value = Some ''prod''\<rparr>]\<rparr>"
  let ?cfg = "load_config scenario_environ"
  have n: "Tags ?a = None"
    by simp
  have u: "length (filter (\<lambda>t. Key t = Some (EXCLUDE_TAG_KEY ?cfg)) (tags_of ?b)) \<le> 1"
    by (simp add: scenario_config tags_of_def)
  have s: "spec_first_occurrence ?cfg (tags_of ?b)"
    by (simp add: scenario_config tags_of_def spec_first_occurrence_def)
  from should_exclude_any_occurrence [of ?a ?cfg] n
  have x: "\<not> should_exclude ?cfg ?a"
    by blast
  from should_exclude_any_occurrence [of ?b ?cfg] u s
  have y: "should_exclude ?cfg ?b"
    by blast
  from n x u y s show ?thesis
    by blast
qed

section \<open>The handler\<close>

text \<open>
  Claim C1. In every run, the identifiers passed to \<open>stop_instances\<close> are exactly those
  of the fetched instances that carry no tag with the configured key and an exempt value,
  and every one of them is the identifier of a fetched instance. The fetched instances are
  read off the response, here also written out for a response whose reservations all hold
  a list. A run whose fetch raises stops nothing, and neither does a run whose response
  has \<open>None\<close> where a list is iterated.
\<close>

theorem stopped_is_fetched_minus_excluded:
  "(\<forall>e. describe_instances w = Inl e \<longrightarrow> stop_calls (snd (lambda_handler cfg w)) = [])
   \<and> (\<forall>resp. describe_instances w = Inr resp \<and> fetched resp = None \<longrightarrow>
         stop_calls (snd (lambda_handler cfg w)) = [])
   \<and> (\<forall>resp insts. describe_instances w = Inr resp \<and> fetched resp = Some insts \<longrightarrow>
         set (concat (stop_calls (snd (lambda_handler cfg w)))) =
           InstanceId `
             {i \<in> set insts.
                \<not> (\<exists>t \<in> set (tags_of i).
                      Key t = Some (EXCLUDE_TAG_KEY cfg) \<and>
                      (\<exists>v \<in> set (EXCLUDE_TAG_VALUES cfg). Value t = Some v))}
         \<and> set (concat (stop_calls (snd (lambda_handler cfg w)))) \<subseteq> InstanceId ` set insts)
   \<and> (\<forall>groups.
         describe_instances w =
           Inr \<lparr>Reservations = Holds (map (\<lambda>g. \<lparr>Instances = Holds g\<rparr>) groups)\<rparr> \<longrightarrow>
         set (concat (stop_calls (snd (lambda_handler cfg w)))) =
           InstanceId `
             {i \<in> set (concat groups).
                \<not> (\<exists>t \<in> set (tags_of i).
                      Key t = Some (EXCLUDE_TAG_KEY cfg) \<and>
                      (\<exists>v \<in> set (EXCLUDE_TAG_VALUES cfg). Value t = Some v))})"
proof -
  have raise: "stop_calls (snd (lambda_handler cfg w)) = []" if "describe_instances w = Inl e" for e
    using that by (simp add: stop_calls_handler)
  have broken: "stop_calls (snd (lambda_handler cfg w)) = []"
    if "describe_instances w = Inr resp \<and> fetched resp = None" for resp
    using that by (simp add: stop_calls_handler)
  have flat: "set (concat (stop_calls (snd (lambda_handler cfg w)))) =
           InstanceId `
             {i \<in> set insts.
                \<not> (\<exists>t \<in> set (tags_of i).
                      Key t = Some (EXCLUDE_TAG_KEY cfg) \<and>
                      (\<exists>v \<in> set (EXCLUDE_TAG_VALUES cfg). Value t = Some v))}"
    if "describe_instances w = Inr resp \<and> fetched resp = Some insts" for resp insts
  proof -
    have "set (concat (stop_calls (snd (lambda_handler cfg w)))) = set (eligible_ids cfg insts)"
      using that by (cases "eligible_ids cfg insts = []") (simp_all add: stop_calls_handler)
    also have "\<dots> = InstanceId ` {i \<in> set insts. \<not> should_exclude cfg i}"
      by (simp add: eligible_ids_def)
    finally show ?thesis
      by (simp add: should_exclude_any)
  qed
  have sub: "set (concat (stop_calls (snd (lambda_handler cfg w)))) \<subseteq> InstanceId ` set insts"
    if "describe_instances w = Inr resp \<and> fetched resp = Some insts" for resp insts
    using flat [OF that] by blast
  have explicit: "set (concat (stop_calls (snd (lambda_handler cfg w)))) =
           InstanceId `
             {i \<in> set (concat groups).
                \<not> (\<exists>t \<in> set (tags_of i).
                      Key t = Some (EXCLUDE_TAG_KEY cfg) \<and>
                      (\<exists>v \<in> set (EXCLUDE_TAG_VALUES cfg). Value t = Some v))}"
    if "describe_instances w =
           Inr \<lparr>Reservations = Holds (map (\<lambda>g. \<lparr>Instances = Holds g\<rparr>) groups)\<rparr>" for groups
  proof -
    have "fetched \<lparr>Reservations = Holds (map (\<lambda>g. \<lparr>Instances = Holds g\<rparr>) groups)\<rparr> = Some (concat groups)"
      by (simp add: fetched_def flatten_groups)
    with that show ?thesis
      by (intro flat) simp
  qed
  from raise broken flat sub explicit show ?thesis
    by blast
qed

theorem stopped_is_fetched_minus_excluded_witness:
  "describe_instances (service (Inr fleet_response) None None) = Inr fleet_response
   \<and> fetched fleet_response =
       Some [\<lparr>InstanceId = Some ''i-0a1b'', Tags = None\<rparr>,
             \<lparr>InstanceId = Some ''i-2'',
              Tags = Some [\<lparr>Key = Some ''Environment'', Value = Some ''staging''\<rparr>]\<rparr>,
             \<lparr>InstanceId = Some ''i-0c2d'',
              Tags = Some [\<lparr>Key = Some ''Environment'', Value = Some ''dev''\<rparr>]\<rparr>]
   \<and> stop_calls (snd (lambda_handler (load_config topic_environ)
                        (service (Inr fleet_response) None None))) = [[Some ''i-0a1b'', Some ''i-0c2d'']]
   \<and> set (concat (stop_calls (snd (lambda_handler (load_config topic_environ)
                        (service (Inr fleet_response) None None)))))
       \<subseteq> {Some ''i-0a1b'', Some ''i-2'', Some ''i-0c2d''}
   \<and> describe_instances (service (Inr broken_response) None None) = Inr broken_response
   \<and> fetched broken_response = None
   \<and> stop_calls (snd (lambda_handler (load_config topic_environ)
                        (service (Inr broken_response) None None))) = []
   \<and> describe_instances (service (Inl (ClientError ''RequestLimitExceeded'')) None None)
       = Inl (ClientError ''RequestLimitExceeded'')
   \<and> stop_calls (snd (lambda_handler (load_config topic_environ)
                        (service (Inl (ClientError ''RequestLimitExceeded'')) None None))) = []"
proof -
  let ?w = "service (Inr fleet_response) None None"
  let ?b = "service (Inr broken_response) None None"
  let ?v = "service (Inl (ClientError ''RequestLimitExceeded'')) None None"
  let ?cfg = "load_config topic_environ"
  let ?insts = "[\<lparr>InstanceId = Some ''i-0a1b'', Tags = None\<rparr>,
             \<lparr>InstanceId = Some ''i-2'',
              Tags = Some [\<lparr>Key = Some ''Environment'', Value = Some ''staging''\<rparr>]\<rparr>,
             \<lparr>InstanceId = Some ''i-0c2d'',
              Tags = Some [\<lparr>Key = Some ''Environment'', Value = Some ''dev''\<rparr>]\<rparr>]"
  have d: "describe_instances ?w = Inr fleet_response"
    by (simp add: service_def)
  have fl: "fetched fleet_response = Some ?insts"
    by (simp add: fetched_def fleet_response_def)
  have db: "describe_instances ?b = Inr broken_response"
    by (simp add: service_def)
  have fb: "fetched broken_response = None"
    by (simp add: fetched_def broken_response_def)
  have f: "describe_instances ?v = Inl (ClientError ''RequestLimitExceeded'')"
    by (simp add: service_def)
  have s: "stop_calls (snd (lambda_handler ?cfg ?w)) = [[Some ''i-0a1b'', Some ''i-0c2d'']]"
    by code_simp
  from stopped_is_fetched_minus_excluded [of ?w ?cfg] d fl
  have "set (concat (stop_calls (snd (lambda_handler ?cfg ?w)))) \<subseteq> InstanceId ` set ?insts"
    by blast
  then have sub: "set (concat (stop_calls (snd (lambda_handler ?cfg ?w))))
       \<subseteq> {Some ''i-0a1b'', Some ''i-2'', Some ''i-0c2d''}"
    by simp
  from stopped_is_fetched_minus_excluded [of ?b ?cfg] db fb
  have nb: "stop_calls (snd (lambda_handler ?cfg ?b)) = []"
    by blast
  from stopped_is_fetched_minus_excluded [of ?v ?cfg] f
  have n: "stop_calls (snd (lambda_handler ?cfg ?v)) = []"
    by blast
  from d fl s sub db fb nb f n show ?thesis
    by (intro conjI)
qed

text \<open>
  Claim C3. When the response holds at least one instance that is not excluded, the
  handler calls \<open>stop_instances\<close> exactly once, with the identifiers of the instances that
  are not excluded, whatever the stop call and the publish call then do. Every outcome it
  returns carries the message \<open>Stopped EC2 instances: \<close> followed by Python's rendering
  of that list. For plain identifiers the rendering is each identifier between single
  quotes, separated by comma and space, between brackets, and no other list of plain
  identifiers gives the same message. The handler does return an outcome whenever the stop
  call succeeds and the publish raises nothing but a \<open>ClientError\<close>.
\<close>

theorem stop_once_with_eligible:
  assumes "describe_instances w = Inr resp"
    and "fetched resp = Some insts"
    and "\<exists>i \<in> set insts. \<not> should_exclude cfg i"
  shows "stop_calls (snd (lambda_handler cfg w)) = [eligible_ids cfg insts]
    \<and> set (eligible_ids cfg insts) = InstanceId ` {i \<in> set insts. \<not> should_exclude cfg i}
    \<and> (\<forall>out. fst (lambda_handler cfg w) = Inr out \<longrightarrow>
          message out = ''Stopped EC2 instances: '' @ str_list (eligible_ids cfg insts)
          \<and> (\<forall>ss. eligible_ids cfg insts = map Some ss \<and> list_all plain ss \<longrightarrow>
                message out = ''Stopped EC2 instances: '' @ quoted_list ss
                \<and> (\<forall>ss'. list_all plain ss' \<and>
                          message out = ''Stopped EC2 instances: '' @ quoted_list ss' \<longrightarrow> ss' = ss)))
    \<and> (stop_instances w (eligible_ids cfg insts) = None
        \<and> (\<forall>e. publish_result cfg w (''Stopped EC2 instances: '' @ str_list (eligible_ids cfg insts)) = Some e
               \<longrightarrow> is_ClientError e)
        \<longrightarrow> fst (lambda_handler cfg w) =
              Inr (ok (''Stopped EC2 instances: '' @ str_list (eligible_ids cfg insts))))"
proof -
  from assms(3) have ne: "eligible_ids cfg insts \<noteq> []"
    by (simp add: eligible_ids_empty_iff)
  then have sm: "summary (eligible_ids cfg insts) = ''Stopped EC2 instances: '' @ str_list (eligible_ids cfg insts)"
    by (simp add: summary_def)
  have calls: "stop_calls (snd (lambda_handler cfg w)) = [eligible_ids cfg insts]"
    using assms(1,2) ne by (simp add: stop_calls_handler)
  have ids: "set (eligible_ids cfg insts) = InstanceId ` {i \<in> set insts. \<not> should_exclude cfg i}"
    by (simp add: eligible_ids_def)
  have msg: "message out = ''Stopped EC2 instances: '' @ str_list (eligible_ids cfg insts)"
    if "fst (lambda_handler cfg w) = Inr out" for out
  proof -
    from that obtain resp' insts' where "describe_instances w = Inr resp'"
      and "fetched resp' = Some insts'"
      and "out = ok (summary (eligible_ids cfg insts'))"
      by (rule returned_outcome)
    with assms(1,2) sm show ?thesis
      by (simp add: ok_def)
  qed
  have pinned: "message out = ''Stopped EC2 instances: '' @ quoted_list ss
                \<and> (\<forall>ss'. list_all plain ss' \<and>
                          message out = ''Stopped EC2 instances: '' @ quoted_list ss' \<longrightarrow> ss' = ss)"
    if "fst (lambda_handler cfg w) = Inr out"
      and "eligible_ids cfg insts = map Some ss \<and> list_all plain ss" for out ss
  proof -
    from that(2) have "str_list (eligible_ids cfg insts) = quoted_list ss"
      by (simp add: str_list_plain)
    with msg [OF that(1)] have m: "message out = ''Stopped EC2 instances: '' @ quoted_list ss"
      by simp
    have "ss' = ss"
      if "list_all plain ss' \<and> message out = ''Stopped EC2 instances: '' @ quoted_list ss'" for ss'
    proof -
      from that m have "quoted_list ss' = quoted_list ss"
        by simp
      with that \<open>eligible_ids cfg insts = map Some ss \<and> list_all plain ss\<close> show ?thesis
        by (intro quoted_list_inj) simp_all
    qed
    with m show ?thesis
      by blast
  qed
  have ret: "fst (lambda_handler cfg w) =
              Inr (ok (''Stopped EC2 instances: '' @ str_list (eligible_ids cfg insts)))"
    if "stop_instances w (eligible_ids cfg insts) = None
        \<and> (\<forall>e. publish_result cfg w (''Stopped EC2 instances: '' @ str_list (eligible_ids cfg insts)) = Some e
               \<longrightarrow> is_ClientError e)"
  proof -
    from that have "stop_result cfg w insts = None"
      by (simp add: stop_result_def)
    from result_primary_ok [OF assms(1,2) this] that show ?thesis
      by (simp add: sm split: option.splits)
  qed
  from calls ids msg pinned ret show ?thesis
    by (intro conjI allI impI) blast+
qed

theorem stop_once_with_eligible_witness:
  "describe_instances (service (Inr fleet_response) None (Some (ClientError ''Throttled'')))
     = Inr fleet_response
   \<and> fetched fleet_response =
       Some [\<lparr>InstanceId = Some ''i-0a1b'', Tags = None\<rparr>,
             \<lparr>InstanceId = Some ''i-2'',
              Tags = Some [\<lparr>Key = Some ''Environment'', Value = Some ''staging''\<rparr>]\<rparr>,
             \<lparr>InstanceId = Some ''i-0c2d'',
              Tags = Some [\<lparr>Key = Some ''Environment'', Value = Some ''dev''\<rparr>]\<rparr>]
   \<and> \<not> should_exclude (load_config topic_environ) \<lparr>InstanceId = Some ''i-0a1b'', Tags = None\<rparr>
   \<and> stop_calls (snd (lambda_handler (load_config topic_environ)
        (service (Inr fleet_response) None (Some (ClientError ''Throttled'')))))
       = [[Some ''i-0a1b'', Some ''i-0c2d'']]
   \<and> list_all plain [''i-0a1b'', ''i-0c2d'']
   \<and> fst (lambda_handler (load_config topic_environ)
        (service (Inr fleet_response) None (Some (ClientError ''Throttled''))))
       = Inr \<lparr>status = ''ok'', message = ''Stopped EC2 instances: ['i-0a1b', 'i-0c2d']''\<rparr>"
proof -
  let ?w = "service (Inr fleet_response) None (Some (ClientError ''Throttled''))"
  let ?cfg = "load_config topic_environ"
  let ?a = "\<lparr>InstanceId = Some ''i-0a1b'', Tags = None\<rparr>"
  let ?insts = "[?a,
             \<lparr>InstanceId = Some ''i-2'',
              Tags = Some [\<lparr>Key = Some ''Environment'', Value = Some ''staging''\<rparr>]\<rparr>,
             \<lparr>InstanceId = Some ''i-0c2d'',
              Tags = Some [\<lparr>Key = Some ''Environment'', Value = Some ''dev''\<rparr>]\<rparr>]"
  have d: "describe_instances ?w = Inr fleet_response"
    by (simp add: service_def)
  have fl: "fetched fleet_response = Some ?insts"
    by (simp add: fetched_def fleet_response_def)
  have na: "\<not> should_exclude ?cfg ?a"
    by (simp add: should_exclude_def tags_of_def)
  then have ex: "\<exists>i \<in> set ?insts. \<not> should_exclude ?cfg i"
    by simp
  have el: "eligible_ids ?cfg ?insts = map Some [''i-0a1b'', ''i-0c2d'']"
    by code_simp
  have pl: "list_all plain [''i-0a1b'', ''i-0c2d'']"
    by code_simp
  have st: "stop_instances ?w (eligible_ids ?cfg ?insts) = None"
    by (simp add: service_def)
  have pr: "\<forall>e. publish_result ?cfg ?w (''Stopped EC2 instances: '' @ str_list (eligible_ids ?cfg ?insts)) = Some e
               \<longrightarrow> is_ClientError e"
    by (simp add: publish_result_def service_def split: option.splits)
  have ql: "''Stopped EC2 instances: '' @ quoted_list [''i-0a1b'', ''i-0c2d'']
              = ''Stopped EC2 instances: ['i-0a1b', 'i-0c2d']''"
    by code_simp
  from stop_once_with_eligible [OF d fl ex] st pr
  have calls: "stop_calls (snd (lambda_handler ?cfg ?w)) = [eligible_ids ?cfg ?insts]"
    and ret: "fst (lambda_handler ?cfg ?w) =
       Inr (ok (''Stopped EC2 instances: '' @ str_list (eligible_ids ?cfg ?insts)))"
    by blast+
  from stop_once_with_eligible [OF d fl ex] ret el pl
  have "message (ok (''Stopped EC2 instances: '' @ str_list (eligible_ids ?cfg ?insts)))
          = ''Stopped EC2 instances: '' @ quoted_list [''i-0a1b'', ''i-0c2d'']"
    by blast
  then have "''Stopped EC2 instances: '' @ str_list (eligible_ids ?cfg ?insts)
          = ''Stopped EC2 instances: ['i-0a1b', 'i-0c2d']''"
    by (simp only: ql ok_def outcome.simps)
  with ret have r: "fst (lambda_handler ?cfg ?w)
       = Inr \<lparr>status = ''ok'', message = ''Stopped EC2 instances: ['i-0a1b', 'i-0c2d']''\<rparr>"
    by (simp only: ok_def)
  from calls el have c: "stop_calls (snd (lambda_handler ?cfg ?w)) = [[Some ''i-0a1b'', Some ''i-0c2d'']]"
    by simp
  from d fl na c pl r show ?thesis
    by (intro conjI)
qed

text \<open>
  Claim C4. When every instance the response holds is excluded (or it holds none), the
  handler never calls \<open>stop_instances\<close>. Every outcome it returns carries the message
  \<open>No eligible instances to stop.\<close>, and it does return one whenever the publish raises
  nothing but a \<open>ClientError\<close>.
\<close>

theorem no_stop_without_eligible:
  assumes "describe_instances w = Inr resp"
    and "fetched resp = Some insts"
    and "\<forall>i \<in> set insts. should_exclude cfg i"
  shows "stop_calls (snd (lambda_handler cfg w)) = []
    \<and> (\<forall>out. fst (lambda_handler cfg w) = Inr out \<longrightarrow>
          message out = ''No eligible instances to stop.'')
    \<and> ((\<forall>e. publish_result cfg w ''No eligible instances to stop.'' = Some e \<longrightarrow> is_ClientError e)
        \<longrightarrow> fst (lambda_handler cfg w) = Inr (ok ''No eligible instances to stop.''))"
proof -
  from assms(3) have em: "eligible_ids cfg insts = []"
    by (simp add: eligible_ids_empty_iff)
  then have sm: "summary (eligible_ids cfg insts) = ''No eligible instances to stop.''"
    by (simp add: summary_def)
  from em have st: "stop_result cfg w insts = None"
    by (simp add: stop_result_def)
  have calls: "stop_calls (snd (lambda_handler cfg w)) = []"
    using assms(1,2) em by (simp add: stop_calls_handler)
  have msg: "message out = ''No eligible instances to stop.''"
    if "fst (lambda_handler cfg w) = Inr out" for out
  proof -
    from that obtain resp' insts' where "describe_instances w = Inr resp'"
      and "fetched resp' = Some insts'"
      and "out = ok (summary (eligible_ids cfg insts'))"
      by (rule returned_outcome)
    with assms(1,2) sm show ?thesis
      by (simp add: ok_def)
  qed
  have ret: "fst (lambda_handler cfg w) = Inr (ok ''No eligible instances to stop.'')"
    if "\<forall>e. publish_result cfg w ''No eligible instances to stop.'' = Some e \<longrightarrow> is_ClientError e"
    using result_primary_ok [OF assms(1,2) st] that
    by (simp add: sm split: option.splits)
  from calls msg ret show ?thesis
    by blast
qed

theorem no_stop_without_eligible_witness:
  "describe_instances
     (service (Inr \<lparr>Reservations = Holds [\<lparr>Instances = Holds [duplicate_key_instance]\<rparr>,
                                            \<lparr>Instances = Absent\<rparr>]\<rparr>) None None)
     = Inr \<lparr>Reservations = Holds [\<lparr>Instances = Holds [duplicate_key_instance]\<rparr>, \<lparr>Instances = Absent\<rparr>]\<rparr>
   \<and> fetched \<lparr>Reservations = Holds [\<lparr>Instances = Holds [duplicate_key_instance]\<rparr>,
                                     \<lparr>Instances = Absent\<rparr>]\<rparr> = Some [duplicate_key_instance]
   \<and> should_exclude (load_config topic_environ) duplicate_key_instance
   \<and> stop_calls (snd (lambda_handler (load_config topic_environ)
        (service (Inr \<lparr>Reservations = Holds [\<lparr>Instances = Holds [duplicate_key_instance]\<rparr>,
                                               \<lparr>Instances = Absent\<rparr>]\<rparr>) None None))) = []
   \<and> fst (lambda_handler (load_config topic_environ)
        (service (Inr \<lparr>Reservations = Holds [\<lparr>Instances = Holds [duplicate_key_instance]\<rparr>,
                                               \<lparr>Instances = Absent\<rparr>]\<rparr>) None None))
       = Inr \<lparr>status = ''ok'', message = ''No eligible instances to stop.''\<rparr>"
proof -
  let ?resp = "\<lparr>Reservations = Holds [\<lparr>Instances = Holds [duplicate_key_instance]\<rparr>, \<lparr>Instances = Absent\<rparr>]\<rparr>"
  let ?w = "service (Inr ?resp) None None"
  let ?cfg = "load_config topic_environ"
  have d: "describe_instances ?w = Inr ?resp"
    by (simp add: service_def)
  have fl: "fetched ?resp = Some [duplicate_key_instance]"
    by (simp add: fetched_def)
  have ex: "should_exclude ?cfg duplicate_key_instance"
    by code_simp
  then have al: "\<forall>i \<in> set [duplicate_key_instance]. should_exclude ?cfg i"
    by simp
  have pr: "\<forall>e. publish_result ?cfg ?w ''No eligible instances to stop.'' = Some e \<longrightarrow> is_ClientError e"
    by (simp add: publish_result_def service_def split: option.splits)
  from no_stop_without_eligible [OF d fl al] pr
  have c: "stop_calls (snd (lambda_handler ?cfg ?w)) = []"
    and "fst (lambda_handler ?cfg ?w) = Inr (ok ''No eligible instances to stop.'')"
    by blast+
  then have r: "fst (lambda_handler ?cfg ?w)
      = Inr \<lparr>status = ''ok'', message = ''No eligible instances to stop.''\<rparr>"
    by (simp only: ok_def)
  from d fl ex c r show ?thesis
    by (intro conjI)
qed

text \<open>
  Claim C8. A response that holds two instances, \<open>i-1\<close> without tags and \<open>i-2\<close> tagged
  \<open>Environment=prod\<close>, in whatever reservations, with the exclusion key \<open>Environment\<close> and
  the exempt value \<open>prod\<close>: the handler calls \<open>stop_instances\<close> once, with \<open>['i-1']\<close>, and
  the message of its outcome is \<open>Stopped EC2 instances: ['i-1']\<close>.
\<close>

theorem scenario_stops_i1:
  assumes "describe_instances w = Inr resp"
    and "fetched resp =
           Some [\<lparr>InstanceId = Some ''i-1'', Tags = no_tags\<rparr>,
                 \<lparr>InstanceId = Some ''i-2'',
                  Tags = Some [\<lparr>Key = Some ''Environment'', Value = Some ''prod''\<rparr>]\<rparr>]"
    and "no_tags = None \<or> no_tags = Some []"
    and "EXCLUDE_TAG_KEY cfg = ''Environment''"
    and "EXCLUDE_TAG_VALUES cfg = [''prod'']"
  shows "stop_calls (snd (lambda_handler cfg w)) = [[Some ''i-1'']]
    \<and> (\<forall>out. fst (lambda_handler cfg w) = Inr out \<longrightarrow>
          message out = ''Stopped EC2 instances: ['i-1']'')
    \<and> (stop_instances w [Some ''i-1''] = None
        \<and> (\<forall>e. publish_result cfg w ''Stopped EC2 instances: ['i-1']'' = Some e \<longrightarrow> is_ClientError e)
        \<longrightarrow> fst (lambda_handler cfg w) = Inr (ok ''Stopped EC2 instances: ['i-1']''))"
proof -
  let ?insts = "[\<lparr>InstanceId = Some ''i-1'', Tags = no_tags\<rparr>,
                 \<lparr>InstanceId = Some ''i-2'',
                  Tags = Some [\<lparr>Key = Some ''Environment'', Value = Some ''prod''\<rparr>]\<rparr>]"
  have el: "eligible_ids cfg ?insts = [Some ''i-1'']"
    using assms(3-5)
    by (auto simp: eligible_ids_def should_exclude_def tags_of_def tag_matches_def)
  have sl: "str_list [Some ''i-1''] = ''['i-1']''"
    by code_simp
  have sm: "summary (eligible_ids cfg ?insts) = ''Stopped EC2 instances: ['i-1']''"
    by (simp add: el summary_def sl)
  have calls: "stop_calls (snd (lambda_handler cfg w)) = [[Some ''i-1'']]"
    using assms(1,2) by (simp add: stop_calls_handler el)
  have msg: "message out = ''Stopped EC2 instances: ['i-1']''"
    if "fst (lambda_handler cfg w) = Inr out" for out
  proof -
    from that obtain resp' insts' where "describe_instances w = Inr resp'"
      and "fetched resp' = Some insts'"
      and "out = ok (summary (eligible_ids cfg insts'))"
      by (rule returned_outcome)
    with assms(1,2) sm show ?thesis
      by (simp add: ok_def)
  qed
  have ret: "fst (lambda_handler cfg w) = Inr (ok ''Stopped EC2 instances: ['i-1']'')"
    if "stop_instances w [Some ''i-1''] = None"
      and "\<forall>e. publish_result cfg w ''Stopped EC2 instances: ['i-1']'' = Some e \<longrightarrow> is_ClientError e"
  proof -
    from that(1) have "stop_result cfg w ?insts = None"
      by (simp add: stop_result_def el)
    from result_primary_ok [OF assms(1,2) this] that(2) show ?thesis
      unfolding sm by (simp split: option.splits)
  qed
  from calls msg ret show ?thesis
    by blast
qed

theorem scenario_stops_i1_witness:
  "describe_instances (service (Inr scenario_response) None None) = Inr scenario_response
   \<and> fetched scenario_response =
           Some [\<lparr>InstanceId = Some ''i-1'', Tags = Some []\<rparr>,
                 \<lparr>InstanceId = Some ''i-2'',
                  Tags = Some [\<lparr>Key = Some ''Environment'', Value = Some ''prod''\<rparr>]\<rparr>]
   \<and> EXCLUDE_TAG_KEY (load_config scenario_environ) = ''Environment''
   \<and> EXCLUDE_TAG_VALUES (load_config scenario_environ) = [''prod'']
   \<and> stop_calls (snd (lambda_handler (load_config scenario_environ)
        (service (Inr scenario_response) None None))) = [[Some ''i-1'']]
   \<and> fst (lambda_handler (load_config scenario_environ) (service (Inr scenario_response) None None))
       = Inr \<lparr>status = ''ok'', message = ''Stopped EC2 instances: ['i-1']''\<rparr>"
proof -
  let ?w = "service (Inr scenario_response) None None"
  let ?cfg = "load_config scenario_environ"
  have d: "describe_instances ?w = Inr scenario_response"
    by (simp add: service_def)
  have f: "fetched scenario_response =
           Some [\<lparr>InstanceId = Some ''i-1'', Tags = Some []\<rparr>,
                 \<lparr>InstanceId = Some ''i-2'',
                  Tags = Some [\<lparr>Key = Some ''Environment'', Value = Some ''prod''\<rparr>]\<rparr>]"
    by (simp add: fetched_def scenario_response_def)
  have t: "Some [] = None \<or> Some ([] :: tag list) = Some []"
    by simp
  have k: "EXCLUDE_TAG_KEY ?cfg = ''Environment''"
    by (simp add: scenario_config)
  have v: "EXCLUDE_TAG_VALUES ?cfg = [''prod'']"
    by (simp add: scenario_config)
  have st: "stop_instances ?w [Some ''i-1''] = None"
    by (simp add: service_def)
  have pr: "\<forall>e. publish_result ?cfg ?w ''Stopped EC2 instances: ['i-1']'' = Some e \<longrightarrow> is_ClientError e"
    by (simp add: publish_result_def service_def split: option.splits)
  from scenario_stops_i1 [OF d f t k v] st pr
  have "stop_calls (snd (lambda_handler ?cfg ?w)) = [[Some ''i-1'']]"
    and "fst (lambda_handler ?cfg ?w) = Inr (ok ''Stopped EC2 instances: ['i-1']'')"
    by blast+
  with d f k v show ?thesis
    by (simp add: ok_def)
qed

text \<open>
  Claim C9. When the handler returns an outcome and a notification topic is configured,
  it has published exactly once, under the subject \<open>EC2 Stop Notification\<close>, and the body
  it published is the message of the outcome.
\<close>

theorem published_body_is_returned_message:
  assumes "fst (lambda_handler cfg w) = Inr out"
    and "notify_target cfg = Some topic"
  shows "publish_calls (snd (lambda_handler cfg w)) =
           [(topic, ''EC2 Stop Notification'', message out)]"
proof -
  from assms(1) obtain resp insts where d: "describe_instances w = Inr resp"
    and fl: "fetched resp = Some insts"
    and st: "stop_result cfg w insts = None"
    and o: "out = ok (summary (eligible_ids cfg insts))"
    and p: "\<forall>e. publish_result cfg w (summary (eligible_ids cfg insts)) = Some e \<longrightarrow> is_ClientError e"
    by (rule returned_outcome)
  from o have m: "message out = summary (eligible_ids cfg insts)"
    by (simp add: ok_def)
  show ?thesis
    using p by (simp add: publish_calls_primary_ok [OF d fl st] assms(2) m split: option.splits)
qed

theorem published_body_is_returned_message_witness:
  "fst (lambda_handler (load_config topic_environ)
          (service (Inr scenario_response) None (Some (ClientError ''Throttled''))))
     = Inr (ok ''Stopped EC2 instances: ['i-1']'')
   \<and> notify_target (load_config topic_environ) = Some ''arn:aws:sns:eu-west-1:111122223333:ec2-stop''
   \<and> publish_calls (snd (lambda_handler (load_config topic_environ)
          (service (Inr scenario_response) None (Some (ClientError ''Throttled''))))) =
       [(''arn:aws:sns:eu-west-1:111122223333:ec2-stop'', ''EC2 Stop Notification'',
         ''Stopped EC2 instances: ['i-1']'')]"
proof -
  let ?w = "service (Inr scenario_response) None (Some (ClientError ''Throttled''))"
  let ?cfg = "load_config topic_environ"
  have r: "fst (lambda_handler ?cfg ?w) = Inr (ok ''Stopped EC2 instances: ['i-1']'')"
    by code_simp
  have t: "notify_target ?cfg = Some ''arn:aws:sns:eu-west-1:111122223333:ec2-stop''"
    by (simp add: topic_config notify_target_def)
  from published_body_is_returned_message [OF r t] r t show ?thesis
    by (simp add: ok_def)
qed

text \<open>
  Claim C10. Every outcome the handler returns has the status \<open>ok\<close>; when the fetch or
  the stop call raises, the handler raises that exception and returns nothing.
\<close>

theorem returned_status_is_ok:
  "(\<forall>out. fst (lambda_handler cfg w) = Inr out \<longrightarrow> status out = ''ok'')
   \<and> (\<forall>e. primary_failure cfg w = Some e \<longrightarrow> fst (lambda_handler cfg w) = Inl e)"
proof (intro conjI allI impI)
  fix out assume "fst (lambda_handler cfg w) = Inr out"
  then obtain insts where "out = ok (summary (eligible_ids cfg insts))"
    by (rule returned_outcome)
  then show "status out = ''ok''"
    by (simp add: ok_def)
next
  fix e assume "primary_failure cfg w = Some e"
  from failure_run [OF this] show "fst (lambda_handler cfg w) = Inl e"
    by auto
qed

theorem returned_status_is_ok_witness:
  "fst (lambda_handler (load_config scenario_environ) (service (Inr scenario_response) None None))
     = Inr (ok ''Stopped EC2 instances: ['i-1']'')
   \<and> status (ok ''Stopped EC2 instances: ['i-1']'') = ''ok''
   \<and> primary_failure (load_config scenario_environ)
        (service (Inr scenario_response) (Some (ClientError ''UnauthorizedOperation'')) None)
       = Some (ClientError ''UnauthorizedOperation'')
   \<and> fst (lambda_handler (load_config scenario_environ)
        (service (Inr scenario_response) (Some (ClientError ''UnauthorizedOperation'')) None))
       = Inl (ClientError ''UnauthorizedOperation'')"
proof -
  let ?w = "service (Inr scenario_response) None None"
  let ?v = "service (Inr scenario_response) (Some (ClientError ''UnauthorizedOperation'')) None"
  let ?cfg = "load_config scenario_environ"
  have r: "fst (lambda_handler ?cfg ?w) = Inr (ok ''Stopped EC2 instances: ['i-1']'')"
    by code_simp
  have f: "primary_failure ?cfg ?v = Some (ClientError ''UnauthorizedOperation'')"
    by code_simp
  from returned_status_is_ok [of ?cfg ?w] r
  have s: "status (ok ''Stopped EC2 instances: ['i-1']'') = ''ok''"
    by blast
  from returned_status_is_ok [of ?cfg ?v] f
  have e: "fst (lambda_handler ?cfg ?v) = Inl (ClientError ''UnauthorizedOperation'')"
    by blast
  from r s f e show ?thesis
    by blast
qed

text \<open>
  Claim C5 asks for exactly one error notification whenever the fetch or the stop call
  raises. The error notification stands behind the same \<open>if SNS_TOPIC_ARN:\<close> as the
  success notification: with no topic configured, a failing fetch is re-raised and nothing
  is published.
\<close>

theorem no_error_notification_without_target:
  "describe_instances (service (Inl (ClientError ''RequestLimitExceeded'')) None None)
     = Inl (ClientError ''RequestLimitExceeded'')
   \<and> fst (lambda_handler (load_config scenario_environ)
            (service (Inl (ClientError ''RequestLimitExceeded'')) None None))
       = Inl (ClientError ''RequestLimitExceeded'')
   \<and> publish_calls (snd (lambda_handler (load_config scenario_environ)
            (service (Inl (ClientError ''RequestLimitExceeded'')) None None))) = []"
  by code_simp

text \<open>
  Claim C5, as the code has it. When the fetch or the stop call raises, the handler
  raises that same exception. If a topic is configured it publishes exactly once, under
  the subject \<open>EC2 Stop Lambda Error\<close> with the text of the exception, and nothing else;
  if none is configured it publishes nothing. What that publish call answers changes
  neither the exception raised nor the trace: the log line \<open>Lambda execution failed\<close> and
  the publish call are the last events of the run.
\<close>

theorem primary_failure_propagates:
  assumes "primary_failure cfg w = Some e"
  shows "fst (lambda_handler cfg w) = Inl e
    \<and> publish_calls (snd (lambda_handler cfg w)) =
        (case notify_target cfg of
           None \<Rightarrow> []
         | Some topic \<Rightarrow> [(topic, ''EC2 Stop Lambda Error'', str_exn e)])
    \<and> (\<exists>pre. snd (lambda_handler cfg w) =
          pre @ LogException ''Lambda execution failed'' #
            (case notify_target cfg of
               None \<Rightarrow> []
             | Some topic \<Rightarrow> [CallPublish topic ''EC2 Stop Lambda Error'' (str_exn e)]))"
proof -
  from failure_run [OF assms] obtain pre
    where run: "lambda_handler cfg w =
           (Inl e, notify_error cfg w e (pre @ [LogException ''Lambda execution failed'']))"
      and quiet: "publish_calls pre = []"
    by blast
  from run have res: "fst (lambda_handler cfg w) = Inl e"
    by simp
  from run have tr: "snd (lambda_handler cfg w) =
          pre @ LogException ''Lambda execution failed'' #
            (case notify_target cfg of
               None \<Rightarrow> []
             | Some topic \<Rightarrow> [CallPublish topic ''EC2 Stop Lambda Error'' (str_exn e)])"
    by (simp add: notify_error_eq split: option.splits)
  then have tail: "\<exists>pre. snd (lambda_handler cfg w) =
          pre @ LogException ''Lambda execution failed'' #
            (case notify_target cfg of
               None \<Rightarrow> []
             | Some topic \<Rightarrow> [CallPublish topic ''EC2 Stop Lambda Error'' (str_exn e)])"
    by blast
  have pub: "publish_calls (snd (lambda_handler cfg w)) =
        (case notify_target cfg of
           None \<Rightarrow> []
         | Some topic \<Rightarrow> [(topic, ''EC2 Stop Lambda Error'', str_exn e)])"
    unfolding tr using quiet by (simp add: publish_calls_append split: option.splits)
  from res pub tail show ?thesis
    by (intro conjI)
qed

theorem primary_failure_propagates_witness:
  "primary_failure (load_config topic_environ)
     (service (Inr scenario_response) (Some (ClientError ''UnauthorizedOperation''))
        (Some (OtherException ''Could not connect to the endpoint URL'')))
     = Some (ClientError ''UnauthorizedOperation'')
   \<and> fst (lambda_handler (load_config topic_environ)
        (service (Inr scenario_response) (Some (ClientError ''UnauthorizedOperation''))
           (Some (OtherException ''Could not connect to the endpoint URL''))))
       = Inl (ClientError ''UnauthorizedOperation'')
   \<and> publish_calls (snd (lambda_handler (load_config topic_environ)
        (service (Inr scenario_response) (Some (ClientError ''UnauthorizedOperation''))
           (Some (OtherException ''Could not connect to the endpoint URL'')))))
       = [(''arn:aws:sns:eu-west-1:111122223333:ec2-stop'', ''EC2 Stop Lambda Error'',
           ''UnauthorizedOperation'')]"
proof -
  let ?w = "service (Inr scenario_response) (Some (ClientError ''UnauthorizedOperation''))
        (Some (OtherException ''Could not connect to the endpoint URL''))"
  let ?cfg = "load_config topic_environ"
  have f: "primary_failure ?cfg ?w = Some (ClientError ''UnauthorizedOperation'')"
    by code_simp
  have t: "notify_target ?cfg = Some ''arn:aws:sns:eu-west-1:111122223333:ec2-stop''"
    by (simp add: topic_config notify_target_def)
  from primary_failure_propagates [OF f] f t show ?thesis
    by simp
qed

text \<open>
  Claim C6. After a fetch and a stop call that succeeded, no failure of the success-path
  publish may turn the outcome into an error. The handler wraps that publish in a
  \<open>try\<close> of its own to this end, as it does for the error-path publish, but its
  \<open>except\<close> names \<open>ClientError\<close> where the error path names \<open>Exception\<close>. In the run
  below the fetch and the stop call succeed and the publish raises an exception of another
  class: \<open>i-1\<close> is stopped, the exception reaches the outer handler, a second message goes
  out under the error subject, and the handler raises.
\<close>

theorem other_exception_in_publish_escapes:
  "primary_failure (load_config topic_environ)
     (service (Inr scenario_response) None
        (Some (OtherException ''Could not connect to the endpoint URL''))) = None
   \<and> stop_calls (snd (lambda_handler (load_config topic_environ)
        (service (Inr scenario_response) None
           (Some (OtherException ''Could not connect to the endpoint URL''))))) = [[Some ''i-1'']]
   \<and> publish_calls (snd (lambda_handler (load_config topic_environ)
        (service (Inr scenario_response) None
           (Some (OtherException ''Could not connect to the endpoint URL''))))) =
       [(''arn:aws:sns:eu-west-1:111122223333:ec2-stop'', ''EC2 Stop Notification'',
         ''Stopped EC2 instances: ['i-1']''),
        (''arn:aws:sns:eu-west-1:111122223333:ec2-stop'', ''EC2 Stop Lambda Error'',
         ''Could not connect to the endpoint URL'')]
   \<and> fst (lambda_handler (load_config topic_environ)
        (service (Inr scenario_response) None
           (Some (OtherException ''Could not connect to the endpoint URL''))))
       = Inl (OtherException ''Could not connect to the endpoint URL'')"
  by code_simp

text \<open>
  A \<open>ClientError\<close> of that publish is absorbed: the outcome stays \<open>ok\<close> with the summary
  message.
\<close>

lemma client_error_in_publish_is_absorbed:
  assumes "describe_instances w = Inr resp"
    and "fetched resp = Some insts"
    and "primary_failure cfg w = None"
    and "publish_result cfg w (summary (eligible_ids cfg insts)) = Some e"
    and "is_ClientError e"
  shows "fst (lambda_handler cfg w) = Inr \<lparr>status = ''ok'', message = summary (eligible_ids cfg insts)\<rparr>"
proof -
  from assms(1-3) have "stop_result cfg w insts = None"
    by (simp add: primary_failure_fetch)
  from result_primary_ok [OF assms(1,2) this] assms(4,5) show ?thesis
    by (simp add: ok_def)
qed

end
